theory Spec2Isabelle
  imports Complex_Main "HOL-Library.AList"
begin

section \<open>Python values and dictionaries\<close>

text \<open>
  The environment of \<^verbatim>\<open>camel/environments/base.py\<close> keeps several
  \<^verbatim>\<open>Dict[str, Any]\<close> values.  A dictionary is an association list
  in insertion order; \<^verbatim>\<open>d[k] = v\<close> is \<^const>\<open>AList.update\<close>, which
  replaces the value in place when the key is present and appends the pair otherwise.
  A Python float is modelled by the real number it denotes (infinities and NaN are
  left out).
\<close>

datatype pyval = PNone | PBool bool | PInt int | PStr string

type_synonym 'v dict = "(string \<times> 'v) list"

text \<open>\<^verbatim>\<open>a | b\<close> on dictionaries: a copy of \<open>a\<close>, updated with the items of \<open>b\<close> in order.\<close>

definition dict_merge :: "'v dict \<Rightarrow> 'v dict \<Rightarrow> 'v dict" where
  "dict_merge a b = fold (\<lambda>(k, v). AList.update k v) b a"

text \<open>
  Addition of floats is addition in IEEE 754 double precision: the exact sum is rounded
  to the nearest number with a significand of 53 bits, a tie going to the even
  significand.  Overflow and subnormal numbers are not modelled.
\<close>

definition round_half_even :: "real \<Rightarrow> int" where
  "round_half_even x =
     (let f = \<lfloor>x\<rfloor>; d = x - of_int f
      in if d < 1 / 2 then f else if d > 1 / 2 then f + 1
         else if even f then f else f + 1)"

definition round_double :: "real \<Rightarrow> real" where
  "round_double x =
     (if x = 0 then 0
      else (let e = \<lfloor>log 2 \<bar>x\<bar>\<rfloor> - 52
            in of_int (round_half_even (x / 2 powr of_int e)) * 2 powr of_int e))"

text \<open>
  \<^verbatim>\<open>sum(xs)\<close> on floats: start at 0 and add from the left, each partial sum
  rounded.  (CPython from version 3.12 on also accumulates the rounding errors of the
  partial sums and adds them at the end; the result is the same whenever no partial
  sum is rounded.)
\<close>

definition py_sum :: "real list \<Rightarrow> real" where
  "py_sum xs = foldl (\<lambda>acc x. round_double (acc + x)) 0 xs"


text \<open>\<^verbatim>\<open>str(n)\<close> for a non-negative integer.\<close>

fun py_str :: "nat \<Rightarrow> string" where
  "py_str n =
     (if n < 10 then [''0123456789'' ! n]
      else py_str (n div 10) @ [''0123456789'' ! (n mod 10)])"

declare py_str.simps [simp del]

text \<open>Truthiness of an optional string: \<^verbatim>\<open>None\<close> and \<^verbatim>\<open>""\<close> are falsy.\<close>

fun truthy_str :: "string option \<Rightarrow> bool" where
  "truthy_str None = False"
| "truthy_str (Some s) = (s \<noteq> [])"

fun opt_pyval :: "string option \<Rightarrow> pyval" where
  "opt_pyval None = PNone"
| "opt_pyval (Some s) = PStr s"

section \<open>Data model\<close>

record Action =
  problem_statement :: string
  llm_response :: string
  final_answer :: "string option"
  action_metadata :: "pyval dict"
  timestamp :: nat

record Observation =
  question :: string
  obs_context :: "pyval dict"
  metadata :: "pyval dict option"

text \<open>
  Modelled from the spec: the verifier's result types (\<^verbatim>\<open>camel.verifiers\<close>) are
  not among the sources.  The outcome "carries a success/failure status (and optionally
  richer diagnostics)"; \<^verbatim>\<open>base.py\<close> only compares the status with
  \<^verbatim>\<open>VerificationOutcome.SUCCESS\<close>.
\<close>

datatype VerificationOutcome = SUCCESS | FAILURE | OTHER string

record VerificationResult =
  status :: VerificationOutcome
  result :: string

text \<open>
  Modelled from the spec: the task source (\<^verbatim>\<open>camel.datasets.base\<close>) is not
  among the sources.  It "exposes element count, indexed read returning an item with
  fields question, final_answer, optional rationale, optional difficulty, optional
  metadata map".  The sampler reads the fields with \<^verbatim>\<open>getattr\<close> and a default,
  so a missing attribute and \<^verbatim>\<open>None\<close> coincide, except for the metadata, whose
  default is the empty dictionary while \<^verbatim>\<open>None\<close> has no \<^verbatim>\<open>get\<close>.
  An item that is falsy as a whole is \<open>None\<close> in the list of items.
\<close>

datatype meta_attr = MetaAbsent | MetaNone | MetaDict "pyval dict"

record datapoint =
  dp_question :: "string option"
  dp_final_answer :: "string option"
  dp_rationale :: "string option"
  dp_difficulty :: "string option"
  dp_metadata :: meta_attr

record BaseDataset =
  items :: "datapoint option list"
  generative :: bool  \<comment> \<open>\<^verbatim>\<open>isinstance(self.dataset, GenerativeDataset)\<close>\<close>

text \<open>
  The free-form \<^verbatim>\<open>_state\<close> dictionary has five fixed keys.  The arithmetic of the
  success rate is written over the reals; on the values it meets in a reachable state
  (the rate times 0, plus 0.0 or 1.0, divided by 1) no float operation rounds.
\<close>

record state_map =
  current_datapoint :: "datapoint option"
  attempts :: int
  success_rate :: real
  rewards :: "real dict list"
  termination_reason :: "string option"

datatype info_value =
  InfoStr string | InfoInt int | InfoVerification VerificationResult | InfoState state_map

record StepResult =
  observation :: Observation
  reward :: real
  rewards_dict :: "real dict"
  sr_done :: bool  \<comment> \<open>the field \<^verbatim>\<open>done\<close>\<close>
  info :: "info_value dict"

datatype error =
  RuntimeError string
| ZeroDivisionError
| CollaboratorError string  \<comment> \<open>any exception raised inside a collaborator\<close>

text \<open>
  The fields of \<^verbatim>\<open>BaseEnvironment\<close> that the operations read or write.  The verifier
  and the extractor are external and appear through \<open>collaborators\<close> below; the keyword
  arguments kept in \<^verbatim>\<open>_metadata\<close> are never read by the operations.
\<close>

record BaseEnvironment =
  dataset :: BaseDataset
  max_steps :: "int option"
  teacher_agent :: bool  \<comment> \<open>whether a (truthy) teacher agent was given\<close>
  is_setup :: bool
  current_step :: int
  episode_ended :: bool
  state :: state_map
  last_observation :: "Observation option"
  episode_history :: "(Observation \<times> Action) list"

section \<open>Collaborators\<close>

text \<open>
  The extractor, the verifier, the reward hook \<^verbatim>\<open>_compute_reward\<close> of the
  subclass, the generator of the dataset and the optional setup and cleanup hooks are
  external.  Each operation of the environment takes a record saying how they answer
  during that call, so that they may answer differently from one call to the next.
  A call either returns or raises (\<open>Inl\<close>).  A hook that \<^verbatim>\<open>hasattr\<close> does not
  find is \<open>NoHook\<close>; the hooks of the dataset may change its items.
\<close>

datatype hook = NoHook | Hook "error option"

record collaborators =
  extractor_extract :: "string \<Rightarrow> error + string option"
  verifier_verify :: "string \<Rightarrow> string option \<Rightarrow> error + VerificationResult"
  compute_reward_hook :: "Action \<Rightarrow> string \<Rightarrow> VerificationResult \<Rightarrow> error + real dict"
  generate_new :: "nat \<Rightarrow> BaseDataset \<Rightarrow> error + BaseDataset"
  verifier_setup :: hook
  dataset_setup :: "(BaseDataset \<Rightarrow> error + BaseDataset) option"
  extractor_setup :: hook
  teacher_reset :: "error option"
  verifier_cleanup :: hook
  dataset_cleanup :: "(BaseDataset \<Rightarrow> error + BaseDataset) option"
  extractor_cleanup :: hook

fun run_hook :: "hook \<Rightarrow> error option" where
  "run_hook NoHook = None"
| "run_hook (Hook r) = r"

fun run_dataset_hook ::
  "(BaseDataset \<Rightarrow> error + BaseDataset) option \<Rightarrow> BaseDataset \<Rightarrow> error + BaseDataset" where
  "run_dataset_hook None ds = Inr ds"
| "run_dataset_hook (Some h) ds = h ds"

section \<open>The environment\<close>

definition get_initial_state :: state_map where
  "get_initial_state =
     \<lparr>current_datapoint = None, attempts = 0, success_rate = 0, rewards = [],
      termination_reason = None\<rparr>"

text \<open>The constructor \<^verbatim>\<open>__init__\<close>.\<close>

definition init_env :: "BaseDataset \<Rightarrow> int option \<Rightarrow> bool \<Rightarrow> BaseEnvironment" where
  "init_env ds ms teacher =
     \<lparr>dataset = ds, max_steps = ms, teacher_agent = teacher, is_setup = False,
      current_step = 0, episode_ended = False, state = get_initial_state,
      last_observation = None, episode_history = []\<rparr>"

definition setup_env :: "collaborators \<Rightarrow> BaseEnvironment \<Rightarrow> (error + unit) \<times> BaseEnvironment" where
  "setup_env c env =
     (if is_setup env then (Inr (), env)
      else case run_hook (verifier_setup c) of
        Some e \<Rightarrow> (Inl e, env)
      | None \<Rightarrow>
          (case run_dataset_hook (dataset_setup c) (dataset env) of
             Inl e \<Rightarrow> (Inl e, env)
           | Inr ds \<Rightarrow>
               (let env1 = env\<lparr>dataset := ds\<rparr> in
                case run_hook (extractor_setup c) of
                  Some e \<Rightarrow> (Inl e, env1)
                | None \<Rightarrow>
                    (case (if teacher_agent env1 then teacher_reset c else None) of
                       Some e \<Rightarrow> (Inl e, env1)
                     | None \<Rightarrow> (Inr (), env1\<lparr>is_setup := True\<rparr>)))))"

definition teardown :: "collaborators \<Rightarrow> BaseEnvironment \<Rightarrow> (error + unit) \<times> BaseEnvironment" where
  "teardown c env =
     (if \<not> is_setup env then (Inr (), env)
      else case run_hook (verifier_cleanup c) of
        Some e \<Rightarrow> (Inl e, env)
      | None \<Rightarrow>
          (case run_dataset_hook (dataset_cleanup c) (dataset env) of
             Inl e \<Rightarrow> (Inl e, env)
           | Inr ds \<Rightarrow>
               (let env1 = env\<lparr>dataset := ds\<rparr> in
                case run_hook (extractor_cleanup c) of
                  Some e \<Rightarrow> (Inl e, env1)
                | None \<Rightarrow> (Inr (), env1\<lparr>is_setup := False\<rparr>))))"

definition get_terminal_observation :: "BaseEnvironment \<Rightarrow> Observation" where
  "get_terminal_observation env =
     \<lparr>question = ''Episode completed'', obs_context = [],
      metadata = Some [(''terminal'', PBool True), (''final_step'', PInt (current_step env))]\<rparr>"

text \<open>
  Lines 376 to 418 of \<^verbatim>\<open>_get_next_observation\<close>: what the sampler does with the
  item it has read at index \<open>datapoint_idx\<close>.  The item is stored in the state before its
  fields are checked; the \<^verbatim>\<open>AttributeError\<close> of \<^verbatim>\<open>None.get\<close> is caught
  and gives the terminal observation.
\<close>

definition observation_of_datapoint ::
  "BaseEnvironment \<Rightarrow> nat \<Rightarrow> datapoint option \<Rightarrow> Observation \<times> BaseEnvironment" where
  "observation_of_datapoint env datapoint_idx item =
     (case item of
        None \<Rightarrow> (get_terminal_observation env, env)
      | Some datapoint \<Rightarrow>
          (let env1 = env\<lparr>state := (state env)\<lparr>current_datapoint := Some datapoint\<rparr>\<rparr> in
           if truthy_str (dp_question datapoint) \<and> truthy_str (dp_final_answer datapoint)
           then
             (case dp_metadata datapoint of
                MetaNone \<Rightarrow> (get_terminal_observation env1, env1)
              | m \<Rightarrow>
                  (let md = (case m of MetaDict d \<Rightarrow> d | _ \<Rightarrow> []) in
                   (\<lparr>question = the (dp_question datapoint),
                     obs_context =
                       [(''final_answer'', PStr (the (dp_final_answer datapoint))),
                        (''difficulty'', opt_pyval (dp_difficulty datapoint)),
                        (''rationale'', opt_pyval (dp_rationale datapoint))],
                     metadata = Some (dict_merge
                       [(''step'', PInt (current_step env1)),
                        (''datapoint_id'', PStr (py_str datapoint_idx)),
                        (''verified'',
                           (case map_of md ''verified'' of None \<Rightarrow> PBool False | Some v \<Rightarrow> v))]
                       md)\<rparr>,
                    env1)))
           else (get_terminal_observation env1, env1)))"

text \<open>
  The \<^verbatim>\<open>try\<close> block of \<^verbatim>\<open>_get_next_observation\<close>.  The index is in range
  whenever the source is not empty, so the indexed read does not raise.
\<close>

definition sample_observation :: "BaseEnvironment \<Rightarrow> Observation \<times> BaseEnvironment" where
  "sample_observation env =
     (if length (items (dataset env)) = 0 then (get_terminal_observation env, env)
      else
        (let datapoint_idx = nat (current_step env mod int (length (items (dataset env))))
         in observation_of_datapoint env datapoint_idx (items (dataset env) ! datapoint_idx)))"

definition get_next_observation ::
  "collaborators \<Rightarrow> BaseEnvironment \<Rightarrow> Observation \<times> BaseEnvironment" where
  "get_next_observation c env =
     (if length (items (dataset env)) = 0 then
        (if generative (dataset env) then
           (case generate_new c 1 (dataset env) of
              Inl e \<Rightarrow> (get_terminal_observation env, env)
            | Inr ds \<Rightarrow> sample_observation (env\<lparr>dataset := ds\<rparr>))
         else (get_terminal_observation env, env))
      else sample_observation env)"

definition reset :: "collaborators \<Rightarrow> BaseEnvironment \<Rightarrow> (error + Observation) \<times> BaseEnvironment" where
  "reset c env =
     (case (if \<not> is_setup env then setup_env c env else (Inr (), env)) of
        (Inl e, env0) \<Rightarrow> (Inl e, env0)
      | (Inr u, env0) \<Rightarrow>
          (let env1 = env0\<lparr>current_step := 0, episode_ended := False, episode_history := [],
                            state := get_initial_state\<rparr>;
               (observation, env2) = get_next_observation c env1
           in (Inr observation, env2\<lparr>last_observation := Some observation\<rparr>)))"

definition is_done :: "BaseEnvironment \<Rightarrow> bool" where
  "is_done env =
     (case max_steps env of
        None \<Rightarrow> False
      | Some m \<Rightarrow> if m \<noteq> 0 \<and> current_step env \<ge> m then True else False)"

definition compute_reward ::
  "collaborators \<Rightarrow> Action \<Rightarrow> string \<Rightarrow> VerificationResult \<Rightarrow> BaseEnvironment \<Rightarrow>
     (error + real \<times> real dict) \<times> BaseEnvironment" where
  "compute_reward c action extraction_result verification_result env =
     (let verification_success = (if status verification_result = SUCCESS then 1 else 0 :: real);
          rewards0 = AList.update ''correctness''
                       (if verification_success > 0.5 then 1 else 0) [];
          env1 = env\<lparr>state := (state env)\<lparr>rewards := rewards (state env) @ [rewards0]\<rparr>\<rparr>;
          total_attempts = attempts (state env1) + 1
      in if total_attempts = 0 then (Inl ZeroDivisionError, env1)
         else
           (let env2 = env1\<lparr>state := (state env1)\<lparr>success_rate :=
                         (success_rate (state env1) * of_int (total_attempts - 1)
                            + verification_success) / of_int total_attempts\<rparr>\<rparr>
            in case compute_reward_hook c action extraction_result verification_result of
                 Inl e \<Rightarrow> (Inl e, env2)
               | Inr further_rewards \<Rightarrow>
                   (let rewards1 = dict_merge rewards0 further_rewards
                    in (Inr (py_sum (map snd rewards1), rewards1), env2))))"

definition step ::
  "collaborators \<Rightarrow> Action \<Rightarrow> BaseEnvironment \<Rightarrow> (error + StepResult) \<times> BaseEnvironment" where
  "step c action env =
     (if (case max_steps env of None \<Rightarrow> False
          | Some m \<Rightarrow> m \<noteq> 0 \<and> current_step env \<ge> m)
      then
        (Inr \<lparr>observation = get_terminal_observation env, reward = 0, rewards_dict = [],
              sr_done = True, info = [(''reason'', InfoStr ''max_steps_reached'')]\<rparr>,
         env)
      else if \<not> is_setup env then
        (Inl (RuntimeError ''Environment not set up. Call setup() first.''), env)
      else if episode_ended env then
        (Inl (RuntimeError ''Episode has ended. Call reset() first.''), env)
      else case last_observation env of
        None \<Rightarrow> (Inl (RuntimeError ''No current observation. Call reset() first.''), env)
      | Some current_obs \<Rightarrow>
          (let env1 = env\<lparr>current_step := current_step env + 1\<rparr>;
               env2 = env1\<lparr>episode_history := episode_history env1 @ [(current_obs, action)]\<rparr>
           in case extractor_extract c (llm_response action) of
                Inl e \<Rightarrow> (Inl e, env2)
              | Inr r \<Rightarrow>
                  (let extraction_result = (case r of None \<Rightarrow> [] | Some s \<Rightarrow> s) in
                   case verifier_verify c extraction_result (final_answer action) of
                     Inl e \<Rightarrow> (Inl e, env2)
                   | Inr verification_result \<Rightarrow>
                       (case compute_reward c action extraction_result verification_result env2 of
                          (Inl e, env3) \<Rightarrow> (Inl e, env3)
                        | (Inr (total_reward, rewards1), env3) \<Rightarrow>
                            (let done = is_done env3;
                                 (next_obs, env4) =
                                   (if done then (get_terminal_observation env3, env3)
                                    else get_next_observation c env3);
                                 env5 = env4\<lparr>last_observation := Some next_obs,
                                              episode_ended := done\<rparr>
                             in (Inr \<lparr>observation = next_obs, reward = total_reward,
                                      rewards_dict = rewards1, sr_done = done,
                                      info =
                                        [(''extraction_result'', InfoStr extraction_result),
                                         (''verification_result'',
                                            InfoVerification verification_result),
                                         (''step'', InfoInt (current_step env5)),
                                         (''state'', InfoState (state env5))]\<rparr>,
                                 env5))))))"

section \<open>Episodes\<close>

text \<open>
  What the collaborators answer to the three calls of one \<^verbatim>\<open>step\<close>, when none
  of them raises: the extracted text (with \<^verbatim>\<open>None\<close> read as the empty string),
  the verification result and the components returned by the reward hook.
\<close>

definition collaborator_answers ::
  "collaborators \<Rightarrow> Action \<Rightarrow> (string \<times> VerificationResult \<times> real dict) option" where
  "collaborator_answers c action =
     (case extractor_extract c (llm_response action) of
        Inl e \<Rightarrow> None
      | Inr r \<Rightarrow>
          (let extraction_result = (case r of None \<Rightarrow> [] | Some s \<Rightarrow> s) in
           case verifier_verify c extraction_result (final_answer action) of
             Inl e \<Rightarrow> None
           | Inr v \<Rightarrow>
               (case compute_reward_hook c action extraction_result v of
                  Inl e \<Rightarrow> None
                | Inr further \<Rightarrow> Some (extraction_result, v, further))))"

text \<open>The state after a sequence of calls to \<^verbatim>\<open>step\<close>, whatever each returns or raises.\<close>

fun run_steps :: "(collaborators \<times> Action) list \<Rightarrow> BaseEnvironment \<Rightarrow> BaseEnvironment" where
  "run_steps [] env = env"
| "run_steps ((c, a) # cs) env = run_steps cs (snd (step c a env))"

text \<open>The binary correctness value of a verification result.\<close>

definition correctness_of :: "VerificationResult \<Rightarrow> real" where
  "correctness_of v = (if status v = SUCCESS then 1 else 0)"

section \<open>Example collaborators and episodes\<close>

text \<open>
  Collaborators without setup or cleanup hooks: the extractor returns its input, the
  verifier reports the given outcome, the reward hook adds no component and the dataset
  cannot generate items.
\<close>

definition ok_collab :: "VerificationOutcome \<Rightarrow> collaborators" where
  "ok_collab out =
     \<lparr>extractor_extract = (\<lambda>s. Inr (Some s)),
      verifier_verify = (\<lambda>x g. Inr \<lparr>status = out, result = x\<rparr>),
      compute_reward_hook = (\<lambda>a x v. Inr []),
      generate_new = (\<lambda>n ds. Inl (CollaboratorError ''no generator'')),
      verifier_setup = NoHook, dataset_setup = None, extractor_setup = NoHook,
      teacher_reset = None,
      verifier_cleanup = NoHook, dataset_cleanup = None, extractor_cleanup = NoHook\<rparr>"

text \<open>Collaborators whose extractor raises and whose verifier has a cleanup hook that raises.\<close>

definition failing_collab :: collaborators where
  "failing_collab =
     (ok_collab SUCCESS)
       \<lparr>extractor_extract := (\<lambda>s. Inl (CollaboratorError ''extractor failed'')),
        verifier_cleanup := Hook (Some (CollaboratorError ''cleanup failed''))\<rparr>"

text \<open>Collaborators whose dataset, respectively extractor, has a cleanup hook that raises.\<close>

definition dataset_cleanup_failing :: collaborators where
  "dataset_cleanup_failing =
     (ok_collab SUCCESS)
       \<lparr>dataset_cleanup := Some (\<lambda>ds. Inl (CollaboratorError ''dataset cleanup failed''))\<rparr>"

definition extractor_cleanup_failing :: collaborators where
  "extractor_cleanup_failing =
     (ok_collab SUCCESS)
       \<lparr>extractor_cleanup := Hook (Some (CollaboratorError ''extractor cleanup failed''))\<rparr>"


definition ex_action :: Action where
  "ex_action = \<lparr>problem_statement = ''q'', llm_response = ''42'', final_answer = Some ''42'',
     action_metadata = [], timestamp = 0\<rparr>"

definition ex_item :: "string \<Rightarrow> datapoint option" where
  "ex_item q = Some \<lparr>dp_question = Some q, dp_final_answer = Some ''42'', dp_rationale = None,
     dp_difficulty = None, dp_metadata = MetaAbsent\<rparr>"

definition ex_dataset :: BaseDataset where
  "ex_dataset = \<lparr>items = [ex_item ''a'', ex_item ''b''], generative = False\<rparr>"

definition ex_obs :: "string \<Rightarrow> int \<Rightarrow> string \<Rightarrow> Observation" where
  "ex_obs q n i =
     \<lparr>question = q,
      obs_context = [(''final_answer'', PStr ''42''), (''difficulty'', PNone),
                     (''rationale'', PNone)],
      metadata = Some [(''step'', PInt n), (''datapoint_id'', PStr i),
                       (''verified'', PBool False)]\<rparr>"

text \<open>The environment after \<^verbatim>\<open>reset\<close> on the two-item dataset, with budget \<open>ms\<close>.\<close>

definition ex_env :: "int option \<Rightarrow> BaseEnvironment" where
  "ex_env ms = snd (reset (ok_collab SUCCESS) (init_env ex_dataset ms False))"


text \<open>A task source that is empty and cannot generate items.\<close>

definition empty_dataset :: BaseDataset where
  "empty_dataset = \<lparr>items = [], generative = False\<rparr>"

text \<open>
  The states an environment can be in: the state after construction, and the state
  after any operation on a reachable state, whether the operation returned or raised
  and whatever the collaborators answered.
\<close>

inductive reachable :: "BaseEnvironment \<Rightarrow> bool" where
  reach_init: "reachable (init_env ds ms teacher)"
| reach_setup: "reachable env \<Longrightarrow> reachable (snd (setup_env c env))"
| reach_teardown: "reachable env \<Longrightarrow> reachable (snd (teardown c env))"
| reach_reset: "reachable env \<Longrightarrow> reachable (snd (reset c env))"
| reach_step: "reachable env \<Longrightarrow> reachable (snd (step c a env))"

section \<open>Basic facts\<close>

subsection \<open>Rounding\<close>

lemma round_half_even_of_int: "round_half_even (of_int m) = m"
  by (simp add: round_half_even_def)

text \<open>A number with a normalised significand of 53 bits is not changed.\<close>

lemma round_double_normal:
  assumes lo: "2 ^ 52 \<le> \<bar>m\<bar>" and hi: "\<bar>m\<bar> < 2 ^ 53"
  shows "round_double (of_int m * 2 powr of_int j) = of_int m * 2 powr of_int j"
proof -
  let ?x = "of_int m * 2 powr of_int j :: real"
  have m0: "m \<noteq> 0" using lo by auto
  have ax: "\<bar>?x\<bar> = of_int \<bar>m\<bar> * 2 powr of_int j" by (simp add: abs_mult)
  have pos: "0 < \<bar>?x\<bar>" using m0 by simp
  have l: "(2::real) powr of_int (52 + j) \<le> \<bar>?x\<bar>"
  proof -
    have "(2::real) ^ 52 \<le> of_int \<bar>m\<bar>"
      using lo by (metis of_int_le_iff of_int_numeral of_int_power)
    then have "(2::real) ^ 52 * 2 powr of_int j \<le> of_int \<bar>m\<bar> * 2 powr of_int j"
      by (intro mult_right_mono) simp_all
    then show ?thesis unfolding ax by (simp add: powr_add)
  qed
  have h: "\<bar>?x\<bar> < (2::real) powr of_int (52 + j + 1)"
  proof -
    have "of_int \<bar>m\<bar> < (2::real) ^ 53"
      using hi by (metis of_int_less_iff of_int_numeral of_int_power)
    then have "of_int \<bar>m\<bar> * 2 powr of_int j < (2::real) ^ 53 * 2 powr of_int j"
      by (intro mult_strict_right_mono) simp_all
    then show ?thesis unfolding ax by (simp add: powr_add)
  qed
  have fl: "\<lfloor>log 2 \<bar>?x\<bar>\<rfloor> = 52 + j"
    using floor_log_eq_powr_iff[OF pos, of 2 "52 + j"] l h by simp
  have x0: "?x \<noteq> 0" using m0 by simp
  show ?thesis
    unfolding round_double_def fl using x0
    by (simp add: Let_def round_half_even_of_int)
qed

lemma round_double_0: "round_double 0 = 0"
  by (simp add: round_double_def)

lemma round_double_1: "round_double 1 = 1"
  using round_double_normal[of "2 ^ 52" "- 52"] by (simp add: powr_minus powr_numeral field_simps)






subsection \<open>Frames\<close>

lemma run_steps_snoc: "run_steps (cs @ [(c, a)]) env = snd (step c a (run_steps cs env))"
  by (induction cs arbitrary: env) auto

lemma observation_of_datapoint_frame:
  "dataset (snd (observation_of_datapoint env i it)) = dataset env"
  "max_steps (snd (observation_of_datapoint env i it)) = max_steps env"
  "teacher_agent (snd (observation_of_datapoint env i it)) = teacher_agent env"
  "is_setup (snd (observation_of_datapoint env i it)) = is_setup env"
  "current_step (snd (observation_of_datapoint env i it)) = current_step env"
  "episode_ended (snd (observation_of_datapoint env i it)) = episode_ended env"
  "last_observation (snd (observation_of_datapoint env i it)) = last_observation env"
  "episode_history (snd (observation_of_datapoint env i it)) = episode_history env"
  "attempts (state (snd (observation_of_datapoint env i it))) = attempts (state env)"
  "success_rate (state (snd (observation_of_datapoint env i it))) = success_rate (state env)"
  "rewards (state (snd (observation_of_datapoint env i it))) = rewards (state env)"
  by (simp_all add: observation_of_datapoint_def Let_def split: option.splits meta_attr.splits)

lemma sample_observation_frame:
  "dataset (snd (sample_observation env)) = dataset env"
  "max_steps (snd (sample_observation env)) = max_steps env"
  "teacher_agent (snd (sample_observation env)) = teacher_agent env"
  "is_setup (snd (sample_observation env)) = is_setup env"
  "current_step (snd (sample_observation env)) = current_step env"
  "episode_ended (snd (sample_observation env)) = episode_ended env"
  "last_observation (snd (sample_observation env)) = last_observation env"
  "episode_history (snd (sample_observation env)) = episode_history env"
  "attempts (state (snd (sample_observation env))) = attempts (state env)"
  "success_rate (state (snd (sample_observation env))) = success_rate (state env)"
  "rewards (state (snd (sample_observation env))) = rewards (state env)"
  by (simp_all add: sample_observation_def Let_def observation_of_datapoint_frame)

lemma get_next_observation_frame:
  "max_steps (snd (get_next_observation c env)) = max_steps env"
  "teacher_agent (snd (get_next_observation c env)) = teacher_agent env"
  "is_setup (snd (get_next_observation c env)) = is_setup env"
  "current_step (snd (get_next_observation c env)) = current_step env"
  "episode_ended (snd (get_next_observation c env)) = episode_ended env"
  "last_observation (snd (get_next_observation c env)) = last_observation env"
  "episode_history (snd (get_next_observation c env)) = episode_history env"
  "attempts (state (snd (get_next_observation c env))) = attempts (state env)"
  "success_rate (state (snd (get_next_observation c env))) = success_rate (state env)"
  "rewards (state (snd (get_next_observation c env))) = rewards (state env)"
  by (simp_all add: get_next_observation_def sample_observation_frame split: sum.splits)

lemma get_next_observation_dataset:
  "items (dataset env) \<noteq> [] \<Longrightarrow> dataset (snd (get_next_observation c env)) = dataset env"
  by (simp add: get_next_observation_def sample_observation_frame)

lemma compute_reward_frame:
  "dataset (snd (compute_reward c a x v env)) = dataset env"
  "max_steps (snd (compute_reward c a x v env)) = max_steps env"
  "teacher_agent (snd (compute_reward c a x v env)) = teacher_agent env"
  "is_setup (snd (compute_reward c a x v env)) = is_setup env"
  "current_step (snd (compute_reward c a x v env)) = current_step env"
  "episode_ended (snd (compute_reward c a x v env)) = episode_ended env"
  "last_observation (snd (compute_reward c a x v env)) = last_observation env"
  "episode_history (snd (compute_reward c a x v env)) = episode_history env"
  "attempts (state (snd (compute_reward c a x v env))) = attempts (state env)"
  "current_datapoint (state (snd (compute_reward c a x v env))) = current_datapoint (state env)"
  by (simp_all add: compute_reward_def Let_def split: sum.splits)

lemma compute_reward_ok:
  assumes "compute_reward_hook c a x v = Inr further" "attempts (state env) \<noteq> - 1"
  shows "fst (compute_reward c a x v env) =
           Inr (py_sum (map snd (dict_merge [(''correctness'', correctness_of v)] further)),
                dict_merge [(''correctness'', correctness_of v)] further)"
    and "success_rate (state (snd (compute_reward c a x v env))) =
           (success_rate (state env) * of_int (attempts (state env)) + correctness_of v)
             / of_int (attempts (state env) + 1)"
    and "rewards (state (snd (compute_reward c a x v env))) =
           rewards (state env) @ [[(''correctness'', correctness_of v)]]"
  using assms by (simp_all add: compute_reward_def Let_def correctness_of_def)


lemma is_done_iff:
  "is_done env = (case max_steps env of None \<Rightarrow> False
                  | Some m \<Rightarrow> m \<noteq> 0 \<and> current_step env \<ge> m)"
  by (cases "max_steps env") (simp_all add: is_done_def)

lemma step_budget:
  "is_done env \<Longrightarrow>
   step c a env =
     (Inr \<lparr>observation = get_terminal_observation env, reward = 0, rewards_dict = [],
           sr_done = True, info = [(''reason'', InfoStr ''max_steps_reached'')]\<rparr>, env)"
  by (simp add: step_def is_done_iff)

lemma collaborator_answersD:
  assumes "collaborator_answers c a = Some (x, v, further)"
  shows "\<exists>r. extractor_extract c (llm_response a) = Inr r
              \<and> x = (case r of None \<Rightarrow> [] | Some s \<Rightarrow> s)"
    and "verifier_verify c x (final_answer a) = Inr v"
    and "compute_reward_hook c a x v = Inr further"
  using assms
  by (auto simp: collaborator_answers_def Let_def split: sum.splits)

lemma step_full:
  assumes nd: "\<not> is_done env" and su: "is_setup env" and ne: "\<not> episode_ended env"
    and lo: "last_observation env = Some ob"
    and ans: "collaborator_answers c a = Some (x, v, further)"
    and att: "attempts (state env) \<noteq> - 1"
  shows "step c a env =
     (let env2 = env\<lparr>current_step := current_step env + 1,
                     episode_history := episode_history env @ [(ob, a)]\<rparr>;
          env3 = snd (compute_reward c a x v env2);
          rewards1 = dict_merge [(''correctness'', correctness_of v)] further;
          done = is_done env3;
          p = (if done then (get_terminal_observation env3, env3)
               else get_next_observation c env3);
          env5 = (snd p)\<lparr>last_observation := Some (fst p), episode_ended := done\<rparr>
      in (Inr \<lparr>observation = fst p, reward = py_sum (map snd rewards1),
               rewards_dict = rewards1, sr_done = done,
               info = [(''extraction_result'', InfoStr x),
                       (''verification_result'', InfoVerification v),
                       (''step'', InfoInt (current_step env5)),
                       (''state'', InfoState (state env5))]\<rparr>, env5))"
proof -
  from collaborator_answersD(1)[OF ans] obtain r where
    ex: "extractor_extract c (llm_response a) = Inr r"
    and x: "x = (case r of None \<Rightarrow> [] | Some s \<Rightarrow> s)" by blast
  note ver = collaborator_answersD(2)[OF ans]
  note hk = collaborator_answersD(3)[OF ans]
  define env2 where "env2 = env\<lparr>current_step := current_step env + 1,
                     episode_history := episode_history env @ [(ob, a)]\<rparr>"
  have att2: "attempts (state env2) \<noteq> - 1" using att by (simp add: env2_def)
  have cr: "compute_reward c a x v env2 =
      (Inr (py_sum (map snd (dict_merge [(''correctness'', correctness_of v)] further)),
            dict_merge [(''correctness'', correctness_of v)] further),
       snd (compute_reward c a x v env2))"
    using compute_reward_ok(1)[OF hk att2] by (metis prod.collapse)
  have nb: "\<not> (case max_steps env of None \<Rightarrow> False
          | Some m \<Rightarrow> m \<noteq> 0 \<and> current_step env \<ge> m)"
    using nd by (simp add: is_done_iff)
  have "step c a env =
     (case compute_reward c a x v env2 of
        (Inl e, env3) \<Rightarrow> (Inl e, env3)
      | (Inr (total_reward, rewards1), env3) \<Rightarrow>
          (let done = is_done env3;
               (next_obs, env4) =
                 (if done then (get_terminal_observation env3, env3)
                  else get_next_observation c env3);
               env5 = env4\<lparr>last_observation := Some next_obs, episode_ended := done\<rparr>
           in (Inr \<lparr>observation = next_obs, reward = total_reward,
                    rewards_dict = rewards1, sr_done = done,
                    info = [(''extraction_result'', InfoStr x),
                            (''verification_result'', InfoVerification v),
                            (''step'', InfoInt (current_step env5)),
                            (''state'', InfoState (state env5))]\<rparr>, env5)))"
    unfolding step_def using nb su ne lo ex ver
    by (simp add: env2_def Let_def x[symmetric])
  also have "\<dots> = (let env3 = snd (compute_reward c a x v env2);
          rewards1 = dict_merge [(''correctness'', correctness_of v)] further;
          done = is_done env3;
          p = (if done then (get_terminal_observation env3, env3)
               else get_next_observation c env3);
          env5 = (snd p)\<lparr>last_observation := Some (fst p), episode_ended := done\<rparr>
      in (Inr \<lparr>observation = fst p, reward = py_sum (map snd rewards1),
               rewards_dict = rewards1, sr_done = done,
               info = [(''extraction_result'', InfoStr x),
                       (''verification_result'', InfoVerification v),
                       (''step'', InfoInt (current_step env5)),
                       (''state'', InfoState (state env5))]\<rparr>, env5))"
    by (subst cr) (simp add: Let_def case_prod_unfold)
  finally show ?thesis by (simp add: env2_def Let_def)
qed


lemma is_done_cong:
  "max_steps e' = max_steps e \<Longrightarrow> current_step e' = current_step e \<Longrightarrow> is_done e' = is_done e"
  by (simp add: is_done_iff split: option.splits)

lemma is_done_frame:
  "is_done (e\<lparr>last_observation := lo, episode_ended := b\<rparr>) = is_done e"
  "is_done (snd (get_next_observation c e)) = is_done e"
  "is_done (snd (compute_reward c a x v e)) = is_done e"
  by (rule is_done_cong; simp add: get_next_observation_frame compute_reward_frame)+

lemma step_full_post:
  assumes nd: "\<not> is_done env" and su: "is_setup env" and ne: "\<not> episode_ended env"
    and lo: "last_observation env = Some ob"
    and ans: "collaborator_answers c a = Some (x, v, further)"
    and att: "attempts (state env) \<noteq> - 1"
  defines "e' \<equiv> snd (step c a env)"
  shows "is_setup e'" and "max_steps e' = max_steps env"
    and "current_step e' = current_step env + 1"
    and "episode_history e' = episode_history env @ [(ob, a)]"
    and "last_observation e' \<noteq> None"
    and "attempts (state e') = attempts (state env)"
    and "episode_ended e' = is_done e'"
    and "success_rate (state e') =
           (success_rate (state env) * of_int (attempts (state env)) + correctness_of v)
             / of_int (attempts (state env) + 1)"
    and "\<exists>r. fst (step c a env) = Inr r \<and> sr_done r = is_done e'
           \<and> rewards_dict r = dict_merge [(''correctness'', correctness_of v)] further
           \<and> reward r = py_sum (map snd (rewards_dict r))
           \<and> map fst (info r) =
               [''extraction_result'', ''verification_result'', ''step'', ''state'']
           \<and> map_of (info r) ''extraction_result'' = Some (InfoStr x)
           \<and> map_of (info r) ''verification_result'' = Some (InfoVerification v)"
proof -
  note hk = collaborator_answersD(3)[OF ans]
  define env2 where "env2 = env\<lparr>current_step := current_step env + 1,
                     episode_history := episode_history env @ [(ob, a)]\<rparr>"
  have att2: "attempts (state env2) \<noteq> - 1" using att by (simp add: env2_def)
  note st = step_full[OF nd su ne lo ans att, folded env2_def]
  note cr = compute_reward_frame compute_reward_ok(2,3)[OF hk] att env2_def
  show "is_setup e'" "max_steps e' = max_steps env"
    "current_step e' = current_step env + 1"
    "episode_history e' = episode_history env @ [(ob, a)]"
    "attempts (state e') = attempts (state env)"
    "last_observation e' \<noteq> None"
    unfolding e'_def st using su
    by (simp_all add: Let_def cr get_next_observation_frame)
  show "episode_ended e' = is_done e'"
    unfolding e'_def st
    by (simp add: Let_def is_done_frame)
  show "success_rate (state e') =
           (success_rate (state env) * of_int (attempts (state env)) + correctness_of v)
             / of_int (attempts (state env) + 1)"
    unfolding e'_def st
    by (simp add: Let_def cr get_next_observation_frame)
  show "\<exists>r. fst (step c a env) = Inr r \<and> sr_done r = is_done e'
           \<and> rewards_dict r = dict_merge [(''correctness'', correctness_of v)] further
           \<and> reward r = py_sum (map snd (rewards_dict r))
           \<and> map fst (info r) =
               [''extraction_result'', ''verification_result'', ''step'', ''state'']
           \<and> map_of (info r) ''extraction_result'' = Some (InfoStr x)
           \<and> map_of (info r) ''verification_result'' = Some (InfoVerification v)"
    unfolding e'_def st
    by (simp add: Let_def is_done_frame)
qed

lemma setup_env_frame:
  "max_steps (snd (setup_env c env)) = max_steps env"
  "teacher_agent (snd (setup_env c env)) = teacher_agent env"
  "current_step (snd (setup_env c env)) = current_step env"
  "episode_ended (snd (setup_env c env)) = episode_ended env"
  "state (snd (setup_env c env)) = state env"
  "last_observation (snd (setup_env c env)) = last_observation env"
  "episode_history (snd (setup_env c env)) = episode_history env"
  by (simp_all add: setup_env_def Let_def split: option.splits sum.splits)

lemma setup_env_is_setup:
  "fst (setup_env c env) = Inr u \<Longrightarrow> is_setup (snd (setup_env c env))"
  by (auto simp: setup_env_def Let_def split: option.splits sum.splits if_splits)

lemma teardown_frame:
  "max_steps (snd (teardown c env)) = max_steps env"
  "teacher_agent (snd (teardown c env)) = teacher_agent env"
  "current_step (snd (teardown c env)) = current_step env"
  "episode_ended (snd (teardown c env)) = episode_ended env"
  "state (snd (teardown c env)) = state env"
  "last_observation (snd (teardown c env)) = last_observation env"
  "episode_history (snd (teardown c env)) = episode_history env"
  by (simp_all add: teardown_def Let_def split: option.splits sum.splits)

lemma reset_raises:
  "fst (reset c env) = Inl e \<Longrightarrow>
     \<not> is_setup env \<and> fst (setup_env c env) = Inl e
       \<and> snd (reset c env) = snd (setup_env c env)"
  by (auto simp: reset_def Let_def case_prod_unfold split: if_splits sum.splits)

lemma reset_returns:
  assumes "fst (reset c env) = Inr ob"
  defines "e' \<equiv> snd (reset c env)"
  shows "is_setup e'" and "max_steps e' = max_steps env" and "current_step e' = 0"
    and "\<not> episode_ended e'" and "episode_history e' = []"
    and "last_observation e' = Some ob" and "attempts (state e') = 0"
    and "success_rate (state e') = 0" and "rewards (state e') = []"
proof -
  define p where "p = (if \<not> is_setup env then setup_env c env else (Inr (), env))"
  obtain u where u: "fst p = Inr u"
    using assms(1) unfolding reset_def p_def[symmetric]
    by (cases "fst p") (auto simp: case_prod_unfold)
  have su: "is_setup (snd p)"
    using u setup_env_is_setup[of c env] by (auto simp: p_def split: if_splits)
  have ms: "max_steps (snd p) = max_steps env"
    by (simp add: p_def setup_env_frame)
  have r: "reset c env =
    (let env1 = (snd p)\<lparr>current_step := 0, episode_ended := False, episode_history := [],
                            state := get_initial_state\<rparr>;
         q = get_next_observation c env1
     in (Inr (fst q), (snd q)\<lparr>last_observation := Some (fst q)\<rparr>))"
    unfolding reset_def p_def[symmetric] using u
    by (cases p) (simp add: Let_def case_prod_unfold)
  show "is_setup e'" "max_steps e' = max_steps env" "current_step e' = 0"
    "\<not> episode_ended e'" "episode_history e' = []" "attempts (state e') = 0"
    "success_rate (state e') = 0" "rewards (state e') = []"
    unfolding e'_def r using su ms
    by (simp_all add: Let_def get_next_observation_frame get_initial_state_def)
  show "last_observation e' = Some ob"
    using assms(1) unfolding e'_def r by (simp add: Let_def)
qed

subsection \<open>The example episodes, evaluated\<close>

lemmas ex_defs = ok_collab_def failing_collab_def ex_action_def ex_item_def ex_dataset_def ex_obs_def

lemmas env_defs = init_env_def setup_env_def reset_def get_next_observation_def
  sample_observation_def observation_of_datapoint_def get_initial_state_def
  get_terminal_observation_def dict_merge_def py_str.simps Let_def

lemma ex_env_eq:
  "ex_env ms =
     \<lparr>dataset = ex_dataset, max_steps = ms, teacher_agent = False, is_setup = True,
      current_step = 0, episode_ended = False,
      state = get_initial_state\<lparr>current_datapoint := ex_item ''a''\<rparr>,
      last_observation = Some (ex_obs ''a'' 0 ''0''), episode_history = []\<rparr>"
  by (simp add: ex_env_def env_defs ex_defs)

lemma ex_reset_returns:
  "fst (reset (ok_collab SUCCESS) (init_env ex_dataset ms False)) = Inr (ex_obs ''a'' 0 ''0'')"
  by (simp add: env_defs ex_defs)

lemma ex_answers:
  "collaborator_answers (ok_collab out) ex_action
     = Some (''42'', \<lparr>status = out, result = ''42''\<rparr>, [])"
  by (simp add: collaborator_answers_def ex_defs Let_def)

lemma ex_failed_step:
  "snd (step failing_collab ex_action (ex_env (Some 1)))
     = (ex_env (Some 1))\<lparr>current_step := 1,
          episode_history := [(ex_obs ''a'' 0 ''0'', ex_action)]\<rparr>"
  by (simp add: step_def ex_env_eq failing_collab_def ok_collab_def)

section \<open>The budget short-circuit leaves the state alone\<close>

text \<open>
  Claim C9.  Whenever \<^verbatim>\<open>step\<close> takes the budget short-circuit (a step budget
  is configured and \<open>current_step\<close> has reached it, which is the condition of
  \<^const>\<open>is_done\<close>), the whole environment is left as it was: \<open>current_step\<close>, the
  history, \<open>episode_ended\<close>, \<open>last_observation\<close> and the state map.  In particular
  \<open>episode_ended\<close> keeps its value although the returned result has \<open>done = true\<close>.
\<close>

theorem step_budget_short_circuit_frame:
  assumes "is_done env"
  shows "snd (step c action env) = env
       \<and> episode_ended (snd (step c action env)) = episode_ended env
       \<and> (\<exists>r. fst (step c action env) = Inr r \<and> sr_done r)"
  using step_budget[OF assms, of c action] by simp

text \<open>
  With a budget of one step, a first \<^verbatim>\<open>step\<close> whose extractor raises leaves
  \<open>current_step = 1\<close> and \<open>episode_ended = false\<close>; the next call short-circuits with
  \<open>done = true\<close> and \<open>episode_ended\<close> is still false.
\<close>

theorem step_budget_short_circuit_frame_witness:
  "is_done (snd (step failing_collab ex_action (ex_env (Some 1))))
   \<and> \<not> episode_ended (snd (step failing_collab ex_action (ex_env (Some 1))))
   \<and> \<not> episode_ended (snd (step (ok_collab SUCCESS) ex_action
                            (snd (step failing_collab ex_action (ex_env (Some 1))))))
   \<and> (\<exists>r. fst (step (ok_collab SUCCESS) ex_action
                (snd (step failing_collab ex_action (ex_env (Some 1))))) = Inr r \<and> sr_done r)"
proof -
  have d: "is_done (snd (step failing_collab ex_action (ex_env (Some 1))))"
    by (subst ex_failed_step) (simp add: is_done_iff ex_env_eq)
  have e: "\<not> episode_ended (snd (step failing_collab ex_action (ex_env (Some 1))))"
    by (subst ex_failed_step) (simp add: ex_env_eq)
  from step_budget_short_circuit_frame[OF d, of "ok_collab SUCCESS" ex_action] d e
  show ?thesis by simp
qed

section \<open>Teardown\<close>

text \<open>
  Claim C3 says that \<^verbatim>\<open>teardown\<close> leaves \<open>is_setup\<close> false also when a cleanup
  hook raises.  The code clears the flag as the last statement of the \<^verbatim>\<open>try\<close>
  block and the handler only logs and re-raises, so after a failed cleanup the flag is
  still true.
\<close>

theorem teardown_counterexample:
  "fst (teardown failing_collab (ex_env None)) = Inl (CollaboratorError ''cleanup failed'')
   \<and> is_setup (ex_env None)
   \<and> is_setup (snd (teardown failing_collab (ex_env None)))"
  by (simp add: teardown_def ex_env_eq failing_collab_def ok_collab_def)

text \<open>
  Claim C3, amended.  For every environment in the set-up state, \<^verbatim>\<open>teardown\<close>
  leaves \<open>is_setup\<close> false exactly when it returns normally.  When the cleanup hook of
  the verifier, of the dataset or of the extractor raises, the hooks after it are not
  run, the failure is re-raised and \<open>is_setup\<close> stays true; \<^verbatim>\<open>teardown\<close> returns
  normally, with \<open>is_setup\<close> false, exactly when no hook raises.
\<close>

theorem teardown_clears_iff_returns:
  assumes "is_setup env"
  shows "is_setup (snd (teardown c env)) = (\<exists>e. fst (teardown c env) = Inl e)
       \<and> (\<forall>e. run_hook (verifier_cleanup c) = Some e \<longrightarrow> teardown c env = (Inl e, env))
       \<and> (\<forall>e. run_hook (verifier_cleanup c) = None
              \<and> run_dataset_hook (dataset_cleanup c) (dataset env) = Inl e \<longrightarrow>
            teardown c env = (Inl e, env))
       \<and> (\<forall>e ds. run_hook (verifier_cleanup c) = None
              \<and> run_dataset_hook (dataset_cleanup c) (dataset env) = Inr ds
              \<and> run_hook (extractor_cleanup c) = Some e \<longrightarrow>
            teardown c env = (Inl e, env\<lparr>dataset := ds\<rparr>)
            \<and> is_setup (snd (teardown c env)))
       \<and> (\<forall>ds. run_hook (verifier_cleanup c) = None
              \<and> run_dataset_hook (dataset_cleanup c) (dataset env) = Inr ds
              \<and> run_hook (extractor_cleanup c) = None \<longrightarrow>
            teardown c env = (Inr (), env\<lparr>dataset := ds, is_setup := False\<rparr>))"
  using assms
  by (auto simp: teardown_def Let_def split: option.splits sum.splits)

theorem teardown_clears_iff_returns_witness:
  "is_setup (ex_env None)
   \<and> fst (teardown (ok_collab SUCCESS) (ex_env None)) = Inr ()
   \<and> \<not> is_setup (snd (teardown (ok_collab SUCCESS) (ex_env None)))
   \<and> teardown failing_collab (ex_env None)
       = (Inl (CollaboratorError ''cleanup failed''), ex_env None)
   \<and> teardown dataset_cleanup_failing (ex_env None)
       = (Inl (CollaboratorError ''dataset cleanup failed''), ex_env None)
   \<and> teardown extractor_cleanup_failing (ex_env None)
       = (Inl (CollaboratorError ''extractor cleanup failed''), ex_env None)
   \<and> is_setup (snd (teardown extractor_cleanup_failing (ex_env None)))
   \<and> teardown (ok_collab SUCCESS) (ex_env None)
       = (Inr (), (ex_env None)\<lparr>is_setup := False\<rparr>)"
proof -
  have s: "is_setup (ex_env None)" by (simp add: ex_env_eq)
  have d: "(ex_env None)\<lparr>dataset := dataset (ex_env None)\<rparr> = ex_env None" by simp
  have h1: "run_hook (verifier_cleanup failing_collab)
             = Some (CollaboratorError ''cleanup failed'')"
    by (simp add: failing_collab_def ok_collab_def)
  have h2: "run_hook (verifier_cleanup dataset_cleanup_failing) = None
      \<and> run_dataset_hook (dataset_cleanup dataset_cleanup_failing) (dataset (ex_env None))
          = Inl (CollaboratorError ''dataset cleanup failed'')"
    by (simp add: dataset_cleanup_failing_def ok_collab_def)
  have h3: "run_hook (verifier_cleanup extractor_cleanup_failing) = None
      \<and> run_dataset_hook (dataset_cleanup extractor_cleanup_failing) (dataset (ex_env None))
          = Inr (dataset (ex_env None))
      \<and> run_hook (extractor_cleanup extractor_cleanup_failing)
          = Some (CollaboratorError ''extractor cleanup failed'')"
    by (simp add: extractor_cleanup_failing_def ok_collab_def)
  have h4: "run_hook (verifier_cleanup (ok_collab SUCCESS)) = None
      \<and> run_dataset_hook (dataset_cleanup (ok_collab SUCCESS)) (dataset (ex_env None))
          = Inr (dataset (ex_env None))
      \<and> run_hook (extractor_cleanup (ok_collab SUCCESS)) = None"
    by (simp add: ok_collab_def)
  from teardown_clears_iff_returns[OF s, of failing_collab] h1
  have 1: "teardown failing_collab (ex_env None)
       = (Inl (CollaboratorError ''cleanup failed''), ex_env None)" by blast
  from teardown_clears_iff_returns[OF s, of dataset_cleanup_failing] h2
  have 2: "teardown dataset_cleanup_failing (ex_env None)
       = (Inl (CollaboratorError ''dataset cleanup failed''), ex_env None)" by blast
  from teardown_clears_iff_returns[OF s, of extractor_cleanup_failing] h3
  have 3: "teardown extractor_cleanup_failing (ex_env None)
       = (Inl (CollaboratorError ''extractor cleanup failed''),
          (ex_env None)\<lparr>dataset := dataset (ex_env None)\<rparr>)
       \<and> is_setup (snd (teardown extractor_cleanup_failing (ex_env None)))" by blast
  from teardown_clears_iff_returns[OF s, of "ok_collab SUCCESS"] h4
  have 4: "teardown (ok_collab SUCCESS) (ex_env None)
       = (Inr (), (ex_env None)\<lparr>dataset := dataset (ex_env None), is_setup := False\<rparr>)"
    by blast
  from 4 have 5: "fst (teardown (ok_collab SUCCESS) (ex_env None)) = Inr ()
     \<and> \<not> is_setup (snd (teardown (ok_collab SUCCESS) (ex_env None)))" by simp
  from s 1 2 3 4 5 show ?thesis unfolding d by simp
qed

section \<open>A budget of zero steps\<close>

lemma max_steps_outward:
  "(e\<lparr>max_steps := m\<rparr>)\<lparr>dataset := d\<rparr> = (e\<lparr>dataset := d\<rparr>)\<lparr>max_steps := m\<rparr>"
  "(e\<lparr>max_steps := m\<rparr>)\<lparr>current_step := k\<rparr> = (e\<lparr>current_step := k\<rparr>)\<lparr>max_steps := m\<rparr>"
  "(e\<lparr>max_steps := m\<rparr>)\<lparr>episode_history := h\<rparr> = (e\<lparr>episode_history := h\<rparr>)\<lparr>max_steps := m\<rparr>"
  "(e\<lparr>max_steps := m\<rparr>)\<lparr>state := s\<rparr> = (e\<lparr>state := s\<rparr>)\<lparr>max_steps := m\<rparr>"
  "(e\<lparr>max_steps := m\<rparr>)\<lparr>last_observation := lo\<rparr> = (e\<lparr>last_observation := lo\<rparr>)\<lparr>max_steps := m\<rparr>"
  "(e\<lparr>max_steps := m\<rparr>)\<lparr>episode_ended := b\<rparr> = (e\<lparr>episode_ended := b\<rparr>)\<lparr>max_steps := m\<rparr>"
  "(e\<lparr>max_steps := m\<rparr>)\<lparr>is_setup := b\<rparr> = (e\<lparr>is_setup := b\<rparr>)\<lparr>max_steps := m\<rparr>"
  by simp_all

lemma get_terminal_observation_max_steps:
  "get_terminal_observation (e\<lparr>max_steps := m\<rparr>) = get_terminal_observation e"
  by (simp add: get_terminal_observation_def)

lemma observation_of_datapoint_max_steps:
  "observation_of_datapoint (e\<lparr>max_steps := m\<rparr>) i it =
     (fst (observation_of_datapoint e i it), (snd (observation_of_datapoint e i it))\<lparr>max_steps := m\<rparr>)"
  by (simp add: observation_of_datapoint_def get_terminal_observation_def Let_def
           split: option.splits meta_attr.splits)

lemma sample_observation_max_steps:
  "sample_observation (e\<lparr>max_steps := m\<rparr>) =
     (fst (sample_observation e), (snd (sample_observation e))\<lparr>max_steps := m\<rparr>)"
  by (simp add: sample_observation_def get_terminal_observation_max_steps
        Let_def observation_of_datapoint_max_steps)

lemma get_next_observation_max_steps:
  "get_next_observation c (e\<lparr>max_steps := m\<rparr>) =
     (fst (get_next_observation c e), (snd (get_next_observation c e))\<lparr>max_steps := m\<rparr>)"
  by (simp add: get_next_observation_def get_terminal_observation_max_steps
        sample_observation_max_steps max_steps_outward(1) split: sum.splits)

lemma compute_reward_max_steps:
  "compute_reward c a x v (e\<lparr>max_steps := m\<rparr>) =
     (fst (compute_reward c a x v e), (snd (compute_reward c a x v e))\<lparr>max_steps := m\<rparr>)"
  by (simp add: compute_reward_def Let_def split: sum.splits)

lemma is_done_no_budget:
  "max_steps e = None \<or> max_steps e = Some 0 \<Longrightarrow> \<not> is_done e"
  by (auto simp: is_done_iff)

lemma setup_env_max_steps:
  "setup_env c (e\<lparr>max_steps := m\<rparr>) =
     (fst (setup_env c e), (snd (setup_env c e))\<lparr>max_steps := m\<rparr>)"
  by (simp add: setup_env_def Let_def split: option.splits sum.splits)


lemma is_done_max_steps_falsy:
  "is_done (e\<lparr>max_steps := None\<rparr>) = False"
  "is_done (e\<lparr>max_steps := Some 0\<rparr>) = False"
  by (simp_all add: is_done_iff)

lemma step_no_budget:
  "step c a (e\<lparr>max_steps := Some 0\<rparr>) =
     (fst (step c a (e\<lparr>max_steps := None\<rparr>)),
      (snd (step c a (e\<lparr>max_steps := None\<rparr>)))\<lparr>max_steps := Some 0\<rparr>)"
  by (simp add: step_def Let_def max_steps_outward compute_reward_max_steps
        get_next_observation_max_steps is_done_max_steps_falsy case_prod_unfold
        split: option.splits sum.splits)

lemma reset_no_budget:
  "reset c (e\<lparr>max_steps := Some 0\<rparr>) =
     (fst (reset c (e\<lparr>max_steps := None\<rparr>)),
      (snd (reset c (e\<lparr>max_steps := None\<rparr>)))\<lparr>max_steps := Some 0\<rparr>)"
  by (simp add: reset_def Let_def max_steps_outward setup_env_max_steps
        get_next_observation_max_steps case_prod_unfold
        split: option.splits sum.splits)

text \<open>
  Claim C10.  An environment constructed with \<open>max_steps = 0\<close> behaves exactly as one
  with no step budget: the termination check is false, \<^verbatim>\<open>step\<close> and
  \<^verbatim>\<open>reset\<close> return what they return with \<open>max_steps = None\<close> and leave the same
  environment (up to the field \<open>max_steps\<close> itself), and no result of \<^verbatim>\<open>step\<close>
  has \<open>done = true\<close>.
\<close>

theorem max_steps_zero_is_no_budget:
  assumes "max_steps env = Some 0"
  shows "\<not> is_done env
       \<and> step c a env =
           (fst (step c a (env\<lparr>max_steps := None\<rparr>)),
            (snd (step c a (env\<lparr>max_steps := None\<rparr>)))\<lparr>max_steps := Some 0\<rparr>)
       \<and> reset c env =
           (fst (reset c (env\<lparr>max_steps := None\<rparr>)),
            (snd (reset c (env\<lparr>max_steps := None\<rparr>)))\<lparr>max_steps := Some 0\<rparr>)
       \<and> (case fst (step c a env) of Inl e \<Rightarrow> True | Inr r \<Rightarrow> \<not> sr_done r)"
proof -
  have env: "env = (env\<lparr>max_steps := None\<rparr>)\<lparr>max_steps := Some 0\<rparr>"
    using assms by simp
  have nd: "\<not> is_done env" using assms by (simp add: is_done_no_budget)
  have st: "step c a env =
           (fst (step c a (env\<lparr>max_steps := None\<rparr>)),
            (snd (step c a (env\<lparr>max_steps := None\<rparr>)))\<lparr>max_steps := Some 0\<rparr>)"
    using step_no_budget[of c a "env\<lparr>max_steps := None\<rparr>"] env by simp
  have rs: "reset c env =
           (fst (reset c (env\<lparr>max_steps := None\<rparr>)),
            (snd (reset c (env\<lparr>max_steps := None\<rparr>)))\<lparr>max_steps := Some 0\<rparr>)"
    using reset_no_budget[of c "env\<lparr>max_steps := None\<rparr>"] env by simp
  have dn: "case fst (step c a env) of Inl e \<Rightarrow> True | Inr r \<Rightarrow> \<not> sr_done r"
    using assms
    by (simp add: step_def Let_def is_done_no_budget compute_reward_frame case_prod_unfold
          split: option.splits sum.splits)
  from nd st rs dn show ?thesis by simp
qed

text \<open>On the example episode with \<open>max_steps = 0\<close> the first step returns \<open>done = false\<close>.\<close>

theorem max_steps_zero_is_no_budget_witness:
  "max_steps (ex_env (Some 0)) = Some 0
   \<and> \<not> is_done (ex_env (Some 0))
   \<and> (\<exists>r. fst (step (ok_collab SUCCESS) ex_action (ex_env (Some 0))) = Inr r \<and> \<not> sr_done r)"
proof -
  have m: "max_steps (ex_env (Some 0)) = Some 0" by (simp add: ex_env_eq)
  have "\<not> is_done (ex_env (Some 0))" by (simp add: is_done_iff ex_env_eq)
  then obtain r where r: "fst (step (ok_collab SUCCESS) ex_action (ex_env (Some 0))) = Inr r"
    using step_full_post(9)[OF _ _ _ _ ex_answers, of "ex_env (Some 0)" _ SUCCESS]
    by (auto simp: ex_env_eq get_initial_state_def)
  from max_steps_zero_is_no_budget[OF m, of "ok_collab SUCCESS" ex_action] r m
  show ?thesis by simp
qed

section \<open>Steps, whatever the collaborators answer\<close>

lemma step_unfold:
  "step c action env =
     (if is_done env then
        (Inr \<lparr>observation = get_terminal_observation env, reward = 0, rewards_dict = [],
              sr_done = True, info = [(''reason'', InfoStr ''max_steps_reached'')]\<rparr>, env)
      else if \<not> is_setup env then
        (Inl (RuntimeError ''Environment not set up. Call setup() first.''), env)
      else if episode_ended env then
        (Inl (RuntimeError ''Episode has ended. Call reset() first.''), env)
      else case last_observation env of
        None \<Rightarrow> (Inl (RuntimeError ''No current observation. Call reset() first.''), env)
      | Some current_obs \<Rightarrow>
          (let env2 = env\<lparr>current_step := current_step env + 1,
                          episode_history := episode_history env @ [(current_obs, action)]\<rparr>
           in case extractor_extract c (llm_response action) of
                Inl e \<Rightarrow> (Inl e, env2)
              | Inr r \<Rightarrow>
                  (let extraction_result = (case r of None \<Rightarrow> [] | Some s \<Rightarrow> s) in
                   case verifier_verify c extraction_result (final_answer action) of
                     Inl e \<Rightarrow> (Inl e, env2)
                   | Inr verification_result \<Rightarrow>
                       (case fst (compute_reward c action extraction_result
                                   verification_result env2) of
                          Inl e \<Rightarrow> (Inl e, snd (compute_reward c action extraction_result
                                   verification_result env2))
                        | Inr tr \<Rightarrow>
                            (let env3 = snd (compute_reward c action extraction_result
                                   verification_result env2);
                                 done = is_done env3;
                                 p = (if done then (get_terminal_observation env3, env3)
                                      else get_next_observation c env3);
                                 env5 = (snd p)\<lparr>last_observation := Some (fst p),
                                              episode_ended := done\<rparr>
                             in (Inr \<lparr>observation = fst p, reward = fst tr,
                                      rewards_dict = snd tr, sr_done = done,
                                      info =
                                        [(''extraction_result'', InfoStr extraction_result),
                                         (''verification_result'',
                                            InfoVerification verification_result),
                                         (''step'', InfoInt (current_step env5)),
                                         (''state'', InfoState (state env5))]\<rparr>,
                                 env5))))))"
  unfolding step_def is_done_iff[symmetric]
  by (simp add: Let_def case_prod_unfold split: option.splits sum.splits)

text \<open>The history and the step counter move together, however the call ends.\<close>

lemma step_counts:
  "(current_step (snd (step c a env)) = current_step env
      \<and> episode_history (snd (step c a env)) = episode_history env)
   \<or> (\<exists>ob. last_observation env = Some ob
        \<and> current_step (snd (step c a env)) = current_step env + 1
        \<and> episode_history (snd (step c a env)) = episode_history env @ [(ob, a)])"
  by (simp add: step_unfold Let_def compute_reward_frame get_next_observation_frame
        split: option.splits sum.splits)

lemma step_passes_checks:
  assumes "\<not> is_done env" "is_setup env" "\<not> episode_ended env" "last_observation env = Some ob"
  shows "current_step (snd (step c a env)) = current_step env + 1"
    and "episode_history (snd (step c a env)) = episode_history env @ [(ob, a)]"
  using assms
  by (simp_all add: step_unfold Let_def compute_reward_frame get_next_observation_frame
        split: option.splits sum.splits)

lemma step_frame:
  "max_steps (snd (step c a env)) = max_steps env"
  "is_setup (snd (step c a env)) = is_setup env"
  "teacher_agent (snd (step c a env)) = teacher_agent env"
  by (simp_all add: step_unfold Let_def compute_reward_frame get_next_observation_frame
        split: option.splits sum.splits)

lemma compute_reward_returns:
  assumes "fst (compute_reward c a x v env) = Inr tr"
  shows "attempts (state env) \<noteq> - 1 \<and> (\<exists>further. compute_reward_hook c a x v = Inr further)"
  using assms
  by (cases "compute_reward_hook c a x v")
     (auto simp: compute_reward_def Let_def split: if_splits)

lemma step_returns_full:
  assumes nd: "\<not> is_done env" and r: "fst (step c a env) = Inr r"
  shows "\<exists>ob x v further. is_setup env \<and> \<not> episode_ended env \<and> last_observation env = Some ob
           \<and> collaborator_answers c a = Some (x, v, further) \<and> attempts (state env) \<noteq> - 1"
proof -
  from nd r have su: "is_setup env" and ne: "\<not> episode_ended env"
    by (auto simp: step_unfold split: if_splits)
  from nd r su ne obtain ob where ob: "last_observation env = Some ob"
    by (cases "last_observation env") (auto simp: step_unfold)
  from nd r su ne ob obtain ex where ex: "extractor_extract c (llm_response a) = Inr ex"
    by (cases "extractor_extract c (llm_response a)") (auto simp: step_unfold Let_def)
  define x where "x = (case ex of None \<Rightarrow> [] | Some s \<Rightarrow> s)"
  from nd r su ne ob ex obtain v where v: "verifier_verify c x (final_answer a) = Inr v"
    by (cases "verifier_verify c x (final_answer a)") (auto simp: step_unfold Let_def x_def)
  define env2 where "env2 = env\<lparr>current_step := current_step env + 1,
                          episode_history := episode_history env @ [(ob, a)]\<rparr>"
  from nd r su ne ob ex v obtain tr where "fst (compute_reward c a x v env2) = Inr tr"
    by (cases "fst (compute_reward c a x v env2)")
       (auto simp: step_unfold Let_def x_def env2_def)
  from compute_reward_returns[OF this] obtain further
    where "attempts (state env) \<noteq> - 1" "compute_reward_hook c a x v = Inr further"
    by (auto simp: env2_def)
  with su ne ob ex v show ?thesis
    by (simp add: collaborator_answers_def Let_def x_def)
qed

lemma step_returns_done:
  assumes r: "fst (step c a env) = Inr r" and d: "sr_done r"
  shows "is_done (snd (step c a env))"
proof (cases "is_done env")
  case True
  then show ?thesis by (simp add: step_budget)
next
  case False
  from step_returns_full[OF False r] obtain ob x v further where
    h: "is_setup env" "\<not> episode_ended env" "last_observation env = Some ob"
       "collaborator_answers c a = Some (x, v, further)" "attempts (state env) \<noteq> - 1"
    by blast
  from step_full_post(9)[OF False h] r d show ?thesis by auto
qed

lemma run_steps_done: "is_done env \<Longrightarrow> run_steps cs env = env"
  by (induction cs arbitrary: env) (auto simp: step_budget)

lemma run_steps_append: "run_steps (xs @ ys) env = run_steps ys (run_steps xs env)"
  by (induction xs arbitrary: env) auto


text \<open>
  The state after the first calls of an episode, while the budget is not exhausted and
  no collaborator raises.
\<close>

lemma run_steps_inv:
  assumes su: "is_setup env" and cs0: "current_step env = 0" and ne: "\<not> episode_ended env"
    and lo: "last_observation env \<noteq> None" and at: "attempts (state env) = 0"
    and ok: "\<forall>(c, a) \<in> set cs. collaborator_answers c a \<noteq> None"
    and bd: "case max_steps env of None \<Rightarrow> True | Some N \<Rightarrow> N = 0 \<or> int (length cs) \<le> N"
  shows "is_setup (run_steps cs env) \<and> max_steps (run_steps cs env) = max_steps env
       \<and> current_step (run_steps cs env) = int (length cs)
       \<and> last_observation (run_steps cs env) \<noteq> None
       \<and> attempts (state (run_steps cs env)) = 0
       \<and> episode_ended (run_steps cs env) = is_done (run_steps cs env)"
  using ok bd
proof (induction cs rule: rev_induct)
  case Nil
  from Nil.prems(2) cs0 have "\<not> is_done env"
    by (auto simp: is_done_iff split: option.splits)
  with su cs0 ne lo at show ?case by simp
next
  case (snoc p cs)
  obtain c a where p: "p = (c, a)" by (cases p)
  let ?e = "run_steps cs env"
  have ok': "\<forall>(c, a) \<in> set cs. collaborator_answers c a \<noteq> None"
    using snoc.prems(1) by simp
  have bd': "case max_steps env of None \<Rightarrow> True | Some N \<Rightarrow> N = 0 \<or> int (length cs) \<le> N"
    using snoc.prems(2) by (auto split: option.splits)
  note ih = snoc.IH[OF ok' bd']
  have nd: "\<not> is_done ?e"
    using ih snoc.prems(2) by (auto simp: is_done_iff split: option.splits)
  obtain ob where ob: "last_observation ?e = Some ob" using ih by auto
  obtain x v further where ans: "collaborator_answers c a = Some (x, v, further)"
    using snoc.prems(1) p by (cases "collaborator_answers c a") auto
  have att: "attempts (state ?e) \<noteq> - 1" using ih by simp
  have su': "is_setup ?e" and ne': "\<not> episode_ended ?e" using ih nd by simp_all
  note post = step_full_post(1-7)[OF nd su' ne' ob ans att]
  show ?case
    unfolding p run_steps_snoc using post ih by simp
qed

text \<open>Within an episode the running success rate is the correctness of the last step.\<close>

lemma run_steps_success_rate:
  assumes su: "is_setup env" and cs0: "current_step env = 0" and ne: "\<not> episode_ended env"
    and lo: "last_observation env \<noteq> None" and at: "attempts (state env) = 0"
    and ok: "\<forall>(c, a) \<in> set (cs @ [(c', a')]). collaborator_answers c a \<noteq> None"
    and bd: "case max_steps env of None \<Rightarrow> True | Some N \<Rightarrow> N = 0 \<or> int (length cs) < N"
    and ans: "collaborator_answers c' a' = Some (x, v, further)"
  shows "success_rate (state (run_steps (cs @ [(c', a')]) env)) = correctness_of v"
proof -
  let ?e = "run_steps cs env"
  have ok': "\<forall>(c, a) \<in> set cs. collaborator_answers c a \<noteq> None" using ok by simp
  have bd': "case max_steps env of None \<Rightarrow> True | Some N \<Rightarrow> N = 0 \<or> int (length cs) \<le> N"
    using bd by (auto split: option.splits)
  note inv = run_steps_inv[OF su cs0 ne lo at ok' bd']
  have nd: "\<not> is_done ?e"
    using inv bd by (auto simp: is_done_iff split: option.splits)
  obtain ob where ob: "last_observation ?e = Some ob" using inv by auto
  have att: "attempts (state ?e) \<noteq> - 1" using inv by simp
  have su': "is_setup ?e" and ne': "\<not> episode_ended ?e" using inv nd by simp_all
  from step_full_post(8)[OF nd su' ne' ob ans att] inv
  show ?thesis unfolding run_steps_snoc by simp
qed


section \<open>The step budget\<close>

lemma ex_step_success:
  "fst (step (ok_collab SUCCESS) ex_action (ex_env (Some 1))) =
     Inr \<lparr>observation = \<lparr>question = ''Episode completed'', obs_context = [],
             metadata = Some [(''terminal'', PBool True), (''final_step'', PInt 1)]\<rparr>,
          reward = 1, rewards_dict = [(''correctness'', 1)], sr_done = True,
          info = [(''extraction_result'', InfoStr ''42''),
                  (''verification_result'',
                     InfoVerification \<lparr>status = SUCCESS, result = ''42''\<rparr>),
                  (''step'', InfoInt 1),
                  (''state'', InfoState
                     \<lparr>current_datapoint = ex_item ''a'', attempts = 0, success_rate = 1,
                      rewards = [[(''correctness'', 1)]], termination_reason = None\<rparr>)]\<rparr>"
  by (simp add: step_def ex_env_eq ok_collab_def ex_action_def compute_reward_def is_done_def
        get_terminal_observation_def get_initial_state_def dict_merge_def py_sum_def
        round_double_1 Let_def)

text \<open>
  Claim C1 says that with a budget of \<open>N\<close> steps the \<open>N\<close>-th call returns reward 0, an
  empty breakdown and \<open>info.reason = "max_steps_reached"\<close> without invoking the
  extractor, the verifier or the aggregator.  The short-circuit compares the counter
  before it is incremented, so the \<open>N\<close>-th call (entered with \<open>current_step = N - 1\<close>)
  runs the whole step and ends the episode through \<^verbatim>\<open>_is_done\<close>.  With \<open>N = 1\<close>
  and a successful verification the first call returns reward 1, and it raises when the
  extractor raises.
\<close>

theorem step_budget_counterexample:
  "max_steps (ex_env (Some 1)) = Some 1
   \<and> (\<exists>r. fst (step (ok_collab SUCCESS) ex_action (ex_env (Some 1))) = Inr r
          \<and> sr_done r \<and> reward r = 1 \<and> rewards_dict r = [(''correctness'', 1)]
          \<and> map_of (info r) ''reason'' = None
          \<and> map_of (info r) ''extraction_result'' = Some (InfoStr ''42''))
   \<and> fst (step failing_collab ex_action (ex_env (Some 1)))
       = Inl (CollaboratorError ''extractor failed'')"
proof -
  have f: "fst (step failing_collab ex_action (ex_env (Some 1)))
       = Inl (CollaboratorError ''extractor failed'')"
    by (simp add: step_def ex_env_eq failing_collab_def ok_collab_def)
  have m: "max_steps (ex_env (Some 1)) = Some 1" by (simp add: ex_env_eq)
  have s: "\<exists>r. fst (step (ok_collab SUCCESS) ex_action (ex_env (Some 1))) = Inr r
          \<and> sr_done r \<and> reward r = 1 \<and> rewards_dict r = [(''correctness'', 1)]
          \<and> map_of (info r) ''reason'' = None
          \<and> map_of (info r) ''extraction_result'' = Some (InfoStr ''42'')"
    by (simp add: ex_step_success)
  from f m s show ?thesis by blast
qed

text \<open>
  Claim C1, amended.  For every step budget \<open>N \<ge> 1\<close> and every episode started by a
  \<^verbatim>\<open>reset\<close> that returned, while no collaborator raises: each of the first
  \<open>N - 1\<close> calls to \<^verbatim>\<open>step\<close> returns \<open>done = false\<close>; the \<open>N\<close>-th call returns
  \<open>done = true\<close> after invoking the extractor, the verifier and the aggregator, with the
  aggregated reward and breakdown and the \<open>info\<close> of a completed step; every later call
  returns \<open>done = true\<close>, reward 0, an empty breakdown and
  \<open>info.reason = "max_steps_reached"\<close>, whatever the collaborators would answer, and
  leaves the environment unchanged.  (\<open>cs\<close> lists the collaborators and actions of the
  calls made so far.)
\<close>

theorem step_budget_episode:
  assumes rs: "fst (reset c0 env) = Inr ob0"
    and N: "max_steps env = Some N" "1 \<le> N"
    and ok: "\<forall>(c, a) \<in> set (take (nat N) cs). collaborator_answers c a \<noteq> None"
  shows "(int (length cs) + 1 < N \<and> collaborator_answers c a \<noteq> None \<longrightarrow>
            (\<exists>r. fst (step c a (run_steps cs (snd (reset c0 env)))) = Inr r \<and> \<not> sr_done r))
       \<and> (int (length cs) + 1 = N \<and> collaborator_answers c a = Some (x, v, further) \<longrightarrow>
            (\<exists>r. fst (step c a (run_steps cs (snd (reset c0 env)))) = Inr r \<and> sr_done r
               \<and> rewards_dict r = dict_merge [(''correctness'', correctness_of v)] further
               \<and> reward r = py_sum (map snd (rewards_dict r))
               \<and> map fst (info r) =
                   [''extraction_result'', ''verification_result'', ''step'', ''state'']
               \<and> map_of (info r) ''extraction_result'' = Some (InfoStr x)
               \<and> map_of (info r) ''verification_result'' = Some (InfoVerification v)))
       \<and> (N \<le> int (length cs) \<longrightarrow>
            step c a (run_steps cs (snd (reset c0 env))) =
              (Inr \<lparr>observation =
                      get_terminal_observation (run_steps cs (snd (reset c0 env))),
                    reward = 0, rewards_dict = [], sr_done = True,
                    info = [(''reason'', InfoStr ''max_steps_reached'')]\<rparr>,
               run_steps cs (snd (reset c0 env)))
            \<and> current_step (run_steps cs (snd (reset c0 env))) = N)"
proof -
  let ?e1 = "snd (reset c0 env)"
  note r = reset_returns[OF rs]
  have lo: "last_observation ?e1 \<noteq> None" using r(6) by simp
  have ms: "max_steps ?e1 = Some N" using r(2) N by simp
  { fix ds :: "(collaborators \<times> Action) list"
    assume ok': "\<forall>(c, a) \<in> set ds. collaborator_answers c a \<noteq> None"
      and len: "int (length ds) \<le> N"
    have bd: "case max_steps ?e1 of None \<Rightarrow> True | Some N \<Rightarrow> N = 0 \<or> int (length ds) \<le> N"
      using ms len by simp
    note run_steps_inv[OF r(1) r(3) r(4) lo r(7) ok' bd, unfolded ms]
  } note inv = this
  have short: "int (length cs) \<le> N \<Longrightarrow> take (nat N) cs = cs" by simp
  have A: "\<exists>r. fst (step c a (run_steps cs ?e1)) = Inr r \<and> \<not> sr_done r"
    if len: "int (length cs) + 1 < N" and ans: "collaborator_answers c a \<noteq> None"
  proof -
    from len have l: "int (length cs) \<le> N" by simp
    have ok': "\<forall>(c, a) \<in> set cs. collaborator_answers c a \<noteq> None"
      using ok short[OF l] by simp
    note i = inv[OF ok' l]
    let ?e = "run_steps cs ?e1"
    have nd: "\<not> is_done ?e" using i len by (simp add: is_done_iff)
    obtain ob where ob: "last_observation ?e = Some ob" using i by auto
    obtain x' v' f' where a': "collaborator_answers c a = Some (x', v', f')"
      using ans by (cases "collaborator_answers c a") auto
    have att: "attempts (state ?e) \<noteq> - 1" using i by simp
    have su': "is_setup ?e" and ne': "\<not> episode_ended ?e" using i nd by simp_all
    note post = step_full_post[OF nd su' ne' ob a' att]
    have "\<not> is_done (snd (step c a ?e))"
      using post(2,3) i len by (simp add: is_done_iff)
    with post(9) show ?thesis by auto
  qed
  have B: "\<exists>r. fst (step c a (run_steps cs ?e1)) = Inr r \<and> sr_done r
               \<and> rewards_dict r = dict_merge [(''correctness'', correctness_of v)] further
               \<and> reward r = py_sum (map snd (rewards_dict r))
               \<and> map fst (info r) =
                   [''extraction_result'', ''verification_result'', ''step'', ''state'']
               \<and> map_of (info r) ''extraction_result'' = Some (InfoStr x)
               \<and> map_of (info r) ''verification_result'' = Some (InfoVerification v)"
    if len: "int (length cs) + 1 = N" and ans: "collaborator_answers c a = Some (x, v, further)"
  proof -
    from len have l: "int (length cs) \<le> N" by simp
    have ok': "\<forall>(c, a) \<in> set cs. collaborator_answers c a \<noteq> None"
      using ok short[OF l] by simp
    note i = inv[OF ok' l]
    let ?e = "run_steps cs ?e1"
    have nd: "\<not> is_done ?e" using i len by (simp add: is_done_iff)
    obtain ob where ob: "last_observation ?e = Some ob" using i by auto
    have att: "attempts (state ?e) \<noteq> - 1" using i by simp
    have su': "is_setup ?e" and ne': "\<not> episode_ended ?e" using i nd by simp_all
    note post = step_full_post[OF nd su' ne' ob ans att]
    have "is_done (snd (step c a ?e))"
      using post(2,3) i len N(2) by (simp add: is_done_iff)
    with post(9) show ?thesis by auto
  qed
  have C: "step c a (run_steps cs ?e1) =
              (Inr \<lparr>observation = get_terminal_observation (run_steps cs ?e1),
                    reward = 0, rewards_dict = [], sr_done = True,
                    info = [(''reason'', InfoStr ''max_steps_reached'')]\<rparr>,
               run_steps cs ?e1)
            \<and> current_step (run_steps cs ?e1) = N"
    if len: "N \<le> int (length cs)"
  proof -
    let ?ds = "take (nat N) cs"
    have l: "int (length ?ds) = N" using len N(2) by simp
    note i = inv[OF ok l[THEN eq_refl]]
    have d: "is_done (run_steps ?ds ?e1)" using i l N(2) by (simp add: is_done_iff)
    have "run_steps cs ?e1 = run_steps (drop (nat N) cs) (run_steps ?ds ?e1)"
      by (simp add: run_steps_append[symmetric])
    then have eq: "run_steps cs ?e1 = run_steps ?ds ?e1"
      using run_steps_done[OF d] by simp
    show ?thesis using step_budget[OF d, of c a] i l unfolding eq by simp
  qed
  from A B C show ?thesis by blast
qed


text \<open>An episode with a budget of two steps: the first, second and third call.\<close>

theorem step_budget_episode_witness:
  "(\<exists>r. fst (step (ok_collab SUCCESS) ex_action (ex_env (Some 2))) = Inr r \<and> \<not> sr_done r)
   \<and> (\<exists>r. fst (step (ok_collab SUCCESS) ex_action
                (run_steps [(ok_collab FAILURE, ex_action)] (ex_env (Some 2)))) = Inr r
          \<and> sr_done r \<and> rewards_dict r = [(''correctness'', 1)] \<and> reward r = 1
          \<and> map_of (info r) ''extraction_result'' = Some (InfoStr ''42''))
   \<and> (\<exists>r. fst (step failing_collab ex_action
                (run_steps [(ok_collab FAILURE, ex_action), (ok_collab SUCCESS, ex_action)]
                   (ex_env (Some 2)))) = Inr r
          \<and> sr_done r \<and> reward r = 0 \<and> rewards_dict r = []
          \<and> info r = [(''reason'', InfoStr ''max_steps_reached'')])"
proof -
  let ?env = "init_env ex_dataset (Some 2) False"
  have rs: "fst (reset (ok_collab SUCCESS) ?env) = Inr (ex_obs ''a'' 0 ''0'')"
    by (rule ex_reset_returns)
  have N: "max_steps ?env = Some 2" "(1::int) \<le> 2" by (simp_all add: init_env_def)
  have ok: "\<forall>(c, a) \<in> set (take (nat 2) cs). collaborator_answers c a \<noteq> None"
    if "set cs \<subseteq> {(ok_collab FAILURE, ex_action), (ok_collab SUCCESS, ex_action)}" for cs
    using that set_take_subset[of "nat 2" cs] by (auto simp: ex_answers)
  have a: "collaborator_answers (ok_collab SUCCESS) ex_action \<noteq> None"
    by (simp add: ex_answers)
  have 1: "\<exists>r. fst (step (ok_collab SUCCESS) ex_action (ex_env (Some 2))) = Inr r \<and> \<not> sr_done r"
    using step_budget_episode[OF rs N ok, where cs = "[]" and c = "ok_collab SUCCESS"
        and a = ex_action] a
    by (simp add: ex_env_def)
  have 2: "\<exists>r. fst (step (ok_collab SUCCESS) ex_action
                (run_steps [(ok_collab FAILURE, ex_action)] (ex_env (Some 2)))) = Inr r
          \<and> sr_done r \<and> rewards_dict r = [(''correctness'', 1)] \<and> reward r = 1
          \<and> map_of (info r) ''extraction_result'' = Some (InfoStr ''42'')"
    using step_budget_episode[OF rs N ok, where cs = "[(ok_collab FAILURE, ex_action)]"
        and c = "ok_collab SUCCESS" and a = ex_action and x = "''42''"
        and v = "\<lparr>status = SUCCESS, result = ''42''\<rparr>" and further = "[]"]
    by (auto simp: ex_env_def ex_answers dict_merge_def correctness_of_def py_sum_def
          round_double_1)
  have 3: "\<exists>r. fst (step failing_collab ex_action
                (run_steps [(ok_collab FAILURE, ex_action), (ok_collab SUCCESS, ex_action)]
                   (ex_env (Some 2)))) = Inr r
          \<and> sr_done r \<and> reward r = 0 \<and> rewards_dict r = []
          \<and> info r = [(''reason'', InfoStr ''max_steps_reached'')]"
    using step_budget_episode[OF rs N ok,
        where cs = "[(ok_collab FAILURE, ex_action), (ok_collab SUCCESS, ex_action)]"
        and c = failing_collab and a = ex_action]
    by (simp add: ex_env_def)
  from 1 2 3 show ?thesis by blast
qed

section \<open>Calling step after the episode is done\<close>

lemma reset_set_up_returns:
  "is_setup env \<Longrightarrow> \<exists>ob. fst (reset c env) = Inr ob"
  by (simp add: reset_def Let_def case_prod_unfold)

lemma ex_env_not_done: "\<not> is_done (ex_env (Some 1))" "\<not> is_done (ex_env None)"
  by (simp_all add: is_done_iff ex_env_eq)

text \<open>
  Claim C4 says that once a call to \<^verbatim>\<open>step\<close> has returned \<open>done = true\<close>, every
  further call raises an ordering error until \<^verbatim>\<open>reset\<close>.  The core returns
  \<open>done = true\<close> only when the step budget is reached, and the budget short-circuit is
  the first check of \<^verbatim>\<open>step\<close>, before the check of \<open>episode_ended\<close>: the next call
  returns a result instead of raising.
\<close>

theorem step_after_done_counterexample:
  "(\<exists>r. fst (step (ok_collab SUCCESS) ex_action (ex_env (Some 1))) = Inr r \<and> sr_done r)
   \<and> episode_ended (snd (step (ok_collab SUCCESS) ex_action (ex_env (Some 1))))
   \<and> (\<exists>r. fst (step (ok_collab SUCCESS) ex_action
                (snd (step (ok_collab SUCCESS) ex_action (ex_env (Some 1))))) = Inr r
          \<and> sr_done r \<and> info r = [(''reason'', InfoStr ''max_steps_reached'')])"
proof -
  let ?e = "snd (step (ok_collab SUCCESS) ex_action (ex_env (Some 1)))"
  have 1: "\<exists>r. fst (step (ok_collab SUCCESS) ex_action (ex_env (Some 1))) = Inr r \<and> sr_done r"
    by (simp add: ex_step_success)
  then have d: "is_done ?e" using step_returns_done by blast
  have "episode_ended ?e = is_done ?e"
    by (rule step_full_post(7)[OF ex_env_not_done(1) _ _ _ ex_answers])
       (simp_all add: ex_env_eq get_initial_state_def)
  with d have 2: "episode_ended ?e" by simp
  from 1 2 step_budget[OF d, of "ok_collab SUCCESS" ex_action] show ?thesis by simp
qed

text \<open>
  In a reachable state an ended episode is one whose budget is reached: \<^verbatim>\<open>step\<close>
  sets \<open>episode_ended\<close> to the value of \<^verbatim>\<open>_is_done\<close>, and only \<^verbatim>\<open>reset\<close>
  changes \<open>current_step\<close> or \<open>episode_ended\<close> afterwards.
\<close>

lemma step_keeps_ended_done:
  assumes inv: "episode_ended env \<longrightarrow> is_done env"
  shows "episode_ended (snd (step c a env)) \<longrightarrow> is_done (snd (step c a env))"
proof (cases "is_done env")
  case True
  with inv show ?thesis by (simp add: step_budget)
next
  case False
  with inv have ne: "\<not> episode_ended env" by blast
  from False ne show ?thesis
    by (simp add: step_unfold Let_def compute_reward_frame get_next_observation_frame
          is_done_frame split: option.splits sum.splits)
qed

lemma reachable_ended_done:
  "reachable env \<Longrightarrow> episode_ended env \<longrightarrow> is_done env"
proof (induction rule: reachable.induct)
  case (reach_init ds ms teacher)
  show ?case by (simp add: init_env_def)
next
  case (reach_setup env c)
  have "is_done (snd (setup_env c env)) = is_done env"
    by (rule is_done_cong) (simp_all add: setup_env_frame)
  with reach_setup.IH show ?case by (simp add: setup_env_frame)
next
  case (reach_teardown env c)
  have "is_done (snd (teardown c env)) = is_done env"
    by (rule is_done_cong) (simp_all add: teardown_frame)
  with reach_teardown.IH show ?case by (simp add: teardown_frame)
next
  case (reach_reset env c)
  show ?case
  proof (cases "fst (reset c env)")
    case (Inl e)
    from reset_raises[OF this] have eq: "snd (reset c env) = snd (setup_env c env)" by blast
    have "is_done (snd (setup_env c env)) = is_done env"
      by (rule is_done_cong) (simp_all add: setup_env_frame)
    with reach_reset.IH show ?thesis unfolding eq by (simp add: setup_env_frame)
  next
    case (Inr ob)
    from reset_returns(4)[OF this] show ?thesis by simp
  qed
next
  case (reach_step env c a)
  from reach_step.IH show ?case by (rule step_keeps_ended_done)
qed

text \<open>
  Claim C4, amended.  After a call to \<^verbatim>\<open>step\<close> has returned \<open>done = true\<close>, every
  further call before the next \<^verbatim>\<open>reset\<close> returns (does not raise) the budget
  short-circuit result, \<open>done = true\<close>, reward 0, empty breakdown and
  \<open>info.reason = "max_steps_reached"\<close>, and leaves the environment unchanged, whatever
  the collaborators would answer.  More generally, in every reachable state with
  \<open>episode_ended = true\<close> the step budget is reached, so that \<^verbatim>\<open>step\<close> returns
  this result there, set up or not, and its check of \<open>episode_ended\<close>, which would raise
  the ordering error, is never the one that decides.  A \<^verbatim>\<open>reset\<close> that returns
  clears \<open>episode_ended\<close> and \<open>current_step\<close>.
\<close>

theorem step_after_done:
  assumes r: "fst (step c a env) = Inr r" and d: "sr_done r"
  shows "run_steps cs (snd (step c a env)) = snd (step c a env)
       \<and> step c' a' (run_steps cs (snd (step c a env))) =
           (Inr \<lparr>observation = get_terminal_observation (snd (step c a env)),
                 reward = 0, rewards_dict = [], sr_done = True,
                 info = [(''reason'', InfoStr ''max_steps_reached'')]\<rparr>,
            snd (step c a env))
       \<and> (reachable e2 \<and> episode_ended e2 \<longrightarrow>
            is_done e2
            \<and> step c2 a2 e2 =
                (Inr \<lparr>observation = get_terminal_observation e2,
                      reward = 0, rewards_dict = [], sr_done = True,
                      info = [(''reason'', InfoStr ''max_steps_reached'')]\<rparr>, e2))
       \<and> (\<forall>ob. fst (reset c0 (snd (step c a env))) = Inr ob \<longrightarrow>
            \<not> episode_ended (snd (reset c0 (snd (step c a env))))
            \<and> current_step (snd (reset c0 (snd (step c a env)))) = 0)"
proof -
  have dn: "is_done (snd (step c a env))" by (rule step_returns_done[OF r d])
  have 1: "run_steps cs (snd (step c a env)) = snd (step c a env)"
    by (rule run_steps_done[OF dn])
  have 2: "step c' a' (run_steps cs (snd (step c a env))) =
           (Inr \<lparr>observation = get_terminal_observation (snd (step c a env)),
                 reward = 0, rewards_dict = [], sr_done = True,
                 info = [(''reason'', InfoStr ''max_steps_reached'')]\<rparr>,
            snd (step c a env))"
    unfolding 1 by (rule step_budget[OF dn])
  have 3: "reachable e2 \<and> episode_ended e2 \<longrightarrow>
            is_done e2
            \<and> step c2 a2 e2 =
                (Inr \<lparr>observation = get_terminal_observation e2,
                      reward = 0, rewards_dict = [], sr_done = True,
                      info = [(''reason'', InfoStr ''max_steps_reached'')]\<rparr>, e2)"
    using reachable_ended_done[of e2] step_budget[of e2 c2 a2] by blast
  have 4: "\<forall>ob. fst (reset c0 (snd (step c a env))) = Inr ob \<longrightarrow>
            \<not> episode_ended (snd (reset c0 (snd (step c a env))))
            \<and> current_step (snd (reset c0 (snd (step c a env)))) = 0"
    using reset_returns(3,4) by blast
  from 1 2 3 4 show ?thesis by blast
qed

text \<open>
  The example episode with a budget of one step: two calls after the one that returned
  \<open>done = true\<close>, made with collaborators that would raise; a call after a
  \<^verbatim>\<open>teardown\<close> of the ended episode, which still returns the short-circuit result;
  and a \<^verbatim>\<open>reset\<close>.
\<close>

theorem step_after_done_witness:
  "(\<exists>r. fst (step (ok_collab SUCCESS) ex_action (ex_env (Some 1))) = Inr r \<and> sr_done r)
   \<and> (\<exists>r. fst (step failing_collab ex_action
             (run_steps [(failing_collab, ex_action)]
                (snd (step (ok_collab SUCCESS) ex_action (ex_env (Some 1)))))) = Inr r
          \<and> sr_done r \<and> reward r = 0 \<and> rewards_dict r = []
          \<and> info r = [(''reason'', InfoStr ''max_steps_reached'')])
   \<and> reachable (snd (teardown (ok_collab SUCCESS)
                 (snd (step (ok_collab SUCCESS) ex_action (ex_env (Some 1))))))
   \<and> episode_ended (snd (teardown (ok_collab SUCCESS)
                 (snd (step (ok_collab SUCCESS) ex_action (ex_env (Some 1))))))
   \<and> \<not> is_setup (snd (teardown (ok_collab SUCCESS)
                 (snd (step (ok_collab SUCCESS) ex_action (ex_env (Some 1))))))
   \<and> (\<exists>r. fst (step (ok_collab SUCCESS) ex_action
             (snd (teardown (ok_collab SUCCESS)
                 (snd (step (ok_collab SUCCESS) ex_action (ex_env (Some 1))))))) = Inr r
          \<and> sr_done r \<and> info r = [(''reason'', InfoStr ''max_steps_reached'')])
   \<and> (\<exists>ob. fst (reset (ok_collab SUCCESS)
                 (snd (step (ok_collab SUCCESS) ex_action (ex_env (Some 1))))) = Inr ob)
   \<and> \<not> episode_ended (snd (reset (ok_collab SUCCESS)
                 (snd (step (ok_collab SUCCESS) ex_action (ex_env (Some 1))))))"
proof -
  let ?e = "snd (step (ok_collab SUCCESS) ex_action (ex_env (Some 1)))"
  obtain r where r: "fst (step (ok_collab SUCCESS) ex_action (ex_env (Some 1))) = Inr r"
    and d: "sr_done r"
    by (simp add: ex_step_success)
  let ?t = "snd (teardown (ok_collab SUCCESS) ?e)"
  have su: "is_setup ?e"
    using step_frame(2)[of "ok_collab SUCCESS" ex_action "ex_env (Some 1)"]
    by (simp add: ex_env_eq)
  have "reachable (ex_env (Some 1))"
    unfolding ex_env_def by (rule reach_reset[OF reach_init])
  then have "reachable ?e" by (rule reach_step)
  then have rt: "reachable ?t" by (rule reach_teardown)
  have "episode_ended ?e = is_done ?e"
    by (rule step_full_post(7)[OF ex_env_not_done(1) _ _ _ ex_answers])
       (simp_all add: ex_env_eq get_initial_state_def)
  with step_returns_done[OF r d] have "episode_ended ?e" by simp
  then have et: "episode_ended ?t" by (simp add: teardown_frame)
  have nt: "\<not> is_setup ?t"
    using su by (simp add: teardown_def ok_collab_def)
  from reset_set_up_returns[OF su, of "ok_collab SUCCESS"] obtain ob
    where ob: "fst (reset (ok_collab SUCCESS) ?e) = Inr ob" by blast
  note t = step_after_done[OF r d, where cs = "[(failing_collab, ex_action)]"
      and c' = failing_collab and a' = ex_action
      and ?e2.0 = ?t
      and ?c2.0 = "ok_collab SUCCESS" and ?a2.0 = ex_action and ?c0.0 = "ok_collab SUCCESS"]
  from t rt et have "step (ok_collab SUCCESS) ex_action ?t =
      (Inr \<lparr>observation = get_terminal_observation ?t,
            reward = 0, rewards_dict = [], sr_done = True,
            info = [(''reason'', InfoStr ''max_steps_reached'')]\<rparr>, ?t)" by blast
  then have 3: "\<exists>r. fst (step (ok_collab SUCCESS) ex_action ?t) = Inr r
          \<and> sr_done r \<and> info r = [(''reason'', InfoStr ''max_steps_reached'')]"
    by simp
  from t ob have 4: "\<not> episode_ended (snd (reset (ok_collab SUCCESS) ?e))" by blast
  from t have "step failing_collab ex_action (run_steps [(failing_collab, ex_action)] ?e) =
           (Inr \<lparr>observation = get_terminal_observation ?e,
                 reward = 0, rewards_dict = [], sr_done = True,
                 info = [(''reason'', InfoStr ''max_steps_reached'')]\<rparr>, ?e)"
    by blast
  then have 2: "\<exists>r. fst (step failing_collab ex_action
             (run_steps [(failing_collab, ex_action)] ?e)) = Inr r
          \<and> sr_done r \<and> reward r = 0 \<and> rewards_dict r = []
          \<and> info r = [(''reason'', InfoStr ''max_steps_reached'')]"
    by (simp del: run_steps.simps)
  from r d 2 3 4 ob rt et nt show ?thesis by blast
qed

section \<open>The running success rate\<close>

text \<open>
  Claim C2: after \<open>k\<close> completed steps \<open>success_rate\<close> is the mean of the \<open>k\<close>
  correctness values, 1.0 and then 0.5 when only the first of two steps succeeds, and
  the attempt counter grows by one per step.  \<^verbatim>\<open>compute_reward\<close> reads
  \<^verbatim>\<open>self._state["attempts"]\<close> and never writes it, so \<open>total_attempts\<close> is 1 at
  every step and the rate is the correctness of the last step (lemma
  \<open>run_steps_success_rate\<close>).  In scenario B the code gives 1 after the first step and
  0, not 0.5, after the second, and the counter is still 0.
\<close>

theorem success_rate_scenario_B:
  "success_rate (state (run_steps [(ok_collab SUCCESS, ex_action)] (ex_env None))) = 1
   \<and> success_rate (state (run_steps [(ok_collab SUCCESS, ex_action),
                                      (ok_collab FAILURE, ex_action)] (ex_env None))) = 0
   \<and> attempts (state (run_steps [(ok_collab SUCCESS, ex_action),
                                 (ok_collab FAILURE, ex_action)] (ex_env None))) = 0"
proof -
  have h: "is_setup (ex_env None)" "current_step (ex_env None) = 0"
    "\<not> episode_ended (ex_env None)" "last_observation (ex_env None) \<noteq> None"
    "attempts (state (ex_env None)) = 0"
    by (simp_all add: ex_env_eq get_initial_state_def)
  have b: "case max_steps (ex_env None) of None \<Rightarrow> True | Some N \<Rightarrow> N = 0 \<or> int (length cs) < N"
    "case max_steps (ex_env None) of None \<Rightarrow> True | Some N \<Rightarrow> N = 0 \<or> int (length cs) \<le> N"
    for cs :: "(collaborators \<times> Action) list"
    by (simp_all add: ex_env_eq)
  have 1: "success_rate (state (run_steps ([] @ [(ok_collab SUCCESS, ex_action)]) (ex_env None)))
             = correctness_of \<lparr>status = SUCCESS, result = ''42''\<rparr>"
    by (rule run_steps_success_rate[OF h _ b(1) ex_answers]) (simp add: ex_answers)
  have 2: "success_rate (state (run_steps ([(ok_collab SUCCESS, ex_action)]
             @ [(ok_collab FAILURE, ex_action)]) (ex_env None)))
             = correctness_of \<lparr>status = FAILURE, result = ''42''\<rparr>"
    by (rule run_steps_success_rate[OF h _ b(1) ex_answers]) (simp add: ex_answers)
  have 3: "attempts (state (run_steps [(ok_collab SUCCESS, ex_action),
                                 (ok_collab FAILURE, ex_action)] (ex_env None))) = 0"
    using run_steps_inv[OF h _ b(2), of "[(ok_collab SUCCESS, ex_action),
                                 (ok_collab FAILURE, ex_action)]"]
    by (simp add: ex_answers)
  from 1 2 3 show ?thesis by (simp add: correctness_of_def)
qed

section \<open>The reward aggregator\<close>










section \<open>The observation sampler\<close>

lemma fst_observation_of_datapoint_cong:
  "current_step e = current_step e' \<Longrightarrow>
   fst (observation_of_datapoint e i it) = fst (observation_of_datapoint e' i it)"
  by (simp add: observation_of_datapoint_def get_terminal_observation_def Let_def
           split: option.splits meta_attr.splits)

lemma sample_index_less:
  "xs \<noteq> [] \<Longrightarrow> nat (k mod int (length xs)) < length xs"
  by (simp add: nat_less_iff)

lemma get_next_observation_nonempty:
  "items (dataset env) \<noteq> [] \<Longrightarrow>
   get_next_observation c env =
     observation_of_datapoint env
       (nat (current_step env mod int (length (items (dataset env)))))
       (items (dataset env) ! nat (current_step env mod int (length (items (dataset env)))))"
  by (simp add: get_next_observation_def sample_observation_def Let_def)

lemma get_next_observation_reads:
  assumes "items (dataset (snd (get_next_observation c env))) \<noteq> []"
  shows "fst (get_next_observation c env) =
     fst (observation_of_datapoint env
       (nat (current_step env mod int (length (items (dataset (snd (get_next_observation c env)))))))
       (items (dataset (snd (get_next_observation c env)))
          ! nat (current_step env mod int (length (items (dataset (snd (get_next_observation c env))))))))"
proof (cases "items (dataset env) = []")
  case False
  have d: "dataset (snd (get_next_observation c env)) = dataset env"
    by (rule get_next_observation_dataset[OF False])
  show ?thesis
    unfolding d by (simp add: get_next_observation_nonempty[OF False])
next
  case True
  show ?thesis
  proof (cases "generative (dataset env)")
    case False
    with True assms show ?thesis by (simp add: get_next_observation_def)
  next
    case g: True
    show ?thesis
    proof (cases "generate_new c 1 (dataset env)")
      case (Inl e)
      with True g assms show ?thesis by (simp add: get_next_observation_def)
    next
      case (Inr ds)
      with True g have eq: "get_next_observation c env = sample_observation (env\<lparr>dataset := ds\<rparr>)"
        by (simp add: get_next_observation_def)
      have d: "dataset (snd (get_next_observation c env)) = ds"
        unfolding eq by (simp add: sample_observation_frame)
      with assms have ne: "items ds \<noteq> []" by simp
      show ?thesis
        unfolding d unfolding eq using ne
        by (simp add: sample_observation_def Let_def
              fst_observation_of_datapoint_cong[of "env\<lparr>dataset := ds\<rparr>" env])
    qed
  qed
qed

lemma step_dataset:
  "items (dataset env) \<noteq> [] \<Longrightarrow> dataset (snd (step c a env)) = dataset env"
  by (simp add: step_unfold Let_def compute_reward_frame get_next_observation_dataset
        split: option.splits sum.splits)

lemma run_steps_dataset:
  "items (dataset env) \<noteq> [] \<Longrightarrow> dataset (run_steps cs env) = dataset env"
  by (induction cs arbitrary: env) (auto simp: step_dataset)

lemma reset_unfold:
  assumes "fst (reset c env) = Inr ob"
  shows "\<exists>env0. reset c env =
    (let env1 = env0\<lparr>current_step := 0, episode_ended := False, episode_history := [],
                            state := get_initial_state\<rparr>;
         q = get_next_observation c env1
     in (Inr (fst q), (snd q)\<lparr>last_observation := Some (fst q)\<rparr>))"
proof -
  define p where "p = (if \<not> is_setup env then setup_env c env else (Inr (), env))"
  obtain u where u: "fst p = Inr u"
    using assms unfolding reset_def p_def[symmetric]
    by (cases "fst p") (auto simp: case_prod_unfold)
  have "reset c env =
    (let env1 = (snd p)\<lparr>current_step := 0, episode_ended := False, episode_history := [],
                            state := get_initial_state\<rparr>;
         q = get_next_observation c env1
     in (Inr (fst q), (snd q)\<lparr>last_observation := Some (fst q)\<rparr>))"
    unfolding reset_def p_def[symmetric] using u
    by (cases p) (simp add: Let_def case_prod_unfold)
  then show ?thesis by blast
qed

lemma reset_served:
  assumes r: "fst (reset c env) = Inr ob"
    and ne: "items (dataset (snd (reset c env))) \<noteq> []"
  shows "ob = fst (observation_of_datapoint (snd (reset c env)) 0
                     (items (dataset (snd (reset c env))) ! 0))"
proof -
  from reset_unfold[OF r] obtain env0 where
    eq: "reset c env =
      (let env1 = env0\<lparr>current_step := 0, episode_ended := False, episode_history := [],
                            state := get_initial_state\<rparr>;
         q = get_next_observation c env1
       in (Inr (fst q), (snd q)\<lparr>last_observation := Some (fst q)\<rparr>))" by blast
  define env1 where "env1 = env0\<lparr>current_step := 0, episode_ended := False,
       episode_history := [], state := get_initial_state\<rparr>"
  have s: "snd (reset c env) =
      (snd (get_next_observation c env1))\<lparr>last_observation := Some (fst (get_next_observation c env1))\<rparr>"
    and f: "fst (reset c env) = Inr (fst (get_next_observation c env1))"
    unfolding eq env1_def by (simp_all add: Let_def)
  have d: "dataset (snd (reset c env)) = dataset (snd (get_next_observation c env1))"
    unfolding s by simp
  have c0: "current_step env1 = 0" by (simp add: env1_def)
  have c1: "current_step (snd (reset c env)) = 0" using reset_returns(3)[OF r] .
  from ne have ne': "items (dataset (snd (get_next_observation c env1))) \<noteq> []"
    unfolding d .
  from r f have "ob = fst (get_next_observation c env1)" by simp
  also have "\<dots> = fst (observation_of_datapoint env1 0
                     (items (dataset (snd (reset c env))) ! 0))"
    using get_next_observation_reads[OF ne'] by (simp add: c0 d)
  also have "\<dots> = fst (observation_of_datapoint (snd (reset c env)) 0
                     (items (dataset (snd (reset c env))) ! 0))"
    by (rule fst_observation_of_datapoint_cong) (simp add: c0 c1)
  finally show ?thesis .
qed

lemma step_served:
  assumes nd: "\<not> is_done env" and su: "is_setup env" and ne: "\<not> episode_ended env"
    and lo: "last_observation env = Some ob"
    and ans: "collaborator_answers c a = Some (x, v, further)"
    and att: "attempts (state env) \<noteq> - 1"
    and nb: "\<not> is_done (snd (step c a env))"
    and ds: "items (dataset env) \<noteq> []"
  shows "last_observation (snd (step c a env)) =
           Some (fst (observation_of_datapoint (snd (step c a env))
             (nat ((current_step env + 1) mod int (length (items (dataset env)))))
             (items (dataset env)
                ! nat ((current_step env + 1) mod int (length (items (dataset env)))))))"
proof -
  define env2 where "env2 = env\<lparr>current_step := current_step env + 1,
                     episode_history := episode_history env @ [(ob, a)]\<rparr>"
  define env3 where "env3 = snd (compute_reward c a x v env2)"
  have d3: "dataset env3 = dataset env" and c3: "current_step env3 = current_step env + 1"
    by (simp_all add: env3_def env2_def compute_reward_frame)
  have st: "step c a env =
     (let done = is_done env3;
          p = (if done then (get_terminal_observation env3, env3)
               else get_next_observation c env3);
          env5 = (snd p)\<lparr>last_observation := Some (fst p), episode_ended := done\<rparr>
      in (Inr \<lparr>observation = fst p,
               reward = py_sum (map snd (dict_merge [(''correctness'', correctness_of v)] further)),
               rewards_dict = dict_merge [(''correctness'', correctness_of v)] further,
               sr_done = done,
               info = [(''extraction_result'', InfoStr x),
                       (''verification_result'', InfoVerification v),
                       (''step'', InfoInt (current_step env5)),
                       (''state'', InfoState (state env5))]\<rparr>, env5))"
    unfolding step_full[OF nd su ne lo ans att] env3_def env2_def by (simp add: Let_def)
  have nd3: "\<not> is_done env3"
    using nb unfolding st by (simp add: Let_def is_done_frame split: if_splits)
  have s: "snd (step c a env) =
      (snd (get_next_observation c env3))\<lparr>last_observation := Some (fst (get_next_observation c env3)),
         episode_ended := False\<rparr>"
    unfolding st using nd3 by (simp add: Let_def)
  have c5: "current_step (snd (step c a env)) = current_step env3"
    unfolding s by (simp add: get_next_observation_frame)
  have ne3: "items (dataset env3) \<noteq> []" using ds d3 by simp
  have "last_observation (snd (step c a env)) = Some (fst (get_next_observation c env3))"
    unfolding s by simp
  also have "fst (get_next_observation c env3) =
     fst (observation_of_datapoint env3
             (nat ((current_step env + 1) mod int (length (items (dataset env)))))
             (items (dataset env)
                ! nat ((current_step env + 1) mod int (length (items (dataset env))))))"
    by (simp add: get_next_observation_nonempty[OF ne3] d3 c3)
  also have "\<dots> = fst (observation_of_datapoint (snd (step c a env))
             (nat ((current_step env + 1) mod int (length (items (dataset env)))))
             (items (dataset env)
                ! nat ((current_step env + 1) mod int (length (items (dataset env))))))"
    by (rule fst_observation_of_datapoint_cong) (simp add: c5)
  finally show ?thesis .
qed


text \<open>
  Claim C6.  For every non-empty task source of size \<open>s\<close> the sampler reads the item at
  index \<open>current_step mod s\<close>, which is in range, and builds the observation from it.
  In an episode without step budget in which no collaborator raises, the observation
  served after \<open>k\<close> steps (the one step \<open>k + 1\<close> works on) comes from the item at index
  \<open>k mod s\<close> of the unchanged source: indices 0, 1, 0 for steps 1, 2, 3 on two items.
\<close>

theorem sampler_reads_cyclically:
  "(items (dataset env) \<noteq> [] \<longrightarrow>
      nat (current_step env mod int (length (items (dataset env))))
        < length (items (dataset env))
      \<and> get_next_observation c env =
          observation_of_datapoint env
            (nat (current_step env mod int (length (items (dataset env)))))
            (items (dataset env)
               ! nat (current_step env mod int (length (items (dataset env))))))
   \<and> (fst (reset c0 env0) = Inr ob0 \<and> items (dataset (snd (reset c0 env0))) \<noteq> []
        \<and> max_steps env0 = None
        \<and> (\<forall>(c, a) \<in> set cs. collaborator_answers c a \<noteq> None) \<longrightarrow>
      dataset (run_steps cs (snd (reset c0 env0))) = dataset (snd (reset c0 env0))
      \<and> current_step (run_steps cs (snd (reset c0 env0))) = int (length cs)
      \<and> last_observation (run_steps cs (snd (reset c0 env0))) =
          Some (fst (observation_of_datapoint (run_steps cs (snd (reset c0 env0)))
            (length cs mod length (items (dataset (snd (reset c0 env0)))))
            (items (dataset (snd (reset c0 env0)))
               ! (length cs mod length (items (dataset (snd (reset c0 env0)))))))))"
proof -
  have A: "items (dataset env) \<noteq> [] \<longrightarrow>
      nat (current_step env mod int (length (items (dataset env))))
        < length (items (dataset env))
      \<and> get_next_observation c env =
          observation_of_datapoint env
            (nat (current_step env mod int (length (items (dataset env)))))
            (items (dataset env)
               ! nat (current_step env mod int (length (items (dataset env)))))"
    by (simp add: sample_index_less get_next_observation_nonempty)
  have B: "dataset (run_steps cs (snd (reset c0 env0))) = dataset (snd (reset c0 env0))
      \<and> current_step (run_steps cs (snd (reset c0 env0))) = int (length cs)
      \<and> last_observation (run_steps cs (snd (reset c0 env0))) =
          Some (fst (observation_of_datapoint (run_steps cs (snd (reset c0 env0)))
            (length cs mod length (items (dataset (snd (reset c0 env0)))))
            (items (dataset (snd (reset c0 env0)))
               ! (length cs mod length (items (dataset (snd (reset c0 env0))))))))"
    if rs: "fst (reset c0 env0) = Inr ob0"
      and ne: "items (dataset (snd (reset c0 env0))) \<noteq> []"
      and nb: "max_steps env0 = None"
      and ok: "\<forall>(c, a) \<in> set cs. collaborator_answers c a \<noteq> None"
  proof -
    let ?e1 = "snd (reset c0 env0)"
    let ?ds = "items (dataset ?e1)"
    note r = reset_returns[OF rs]
    have lo: "last_observation ?e1 \<noteq> None" using r(6) by simp
    have ms: "max_steps ?e1 = None" using r(2) nb by simp
    have bd: "case max_steps ?e1 of None \<Rightarrow> True | Some N \<Rightarrow> N = 0 \<or> int (length ds) \<le> N"
      for ds :: "(collaborators \<times> Action) list"
      by (simp add: ms)
    note inv = run_steps_inv[OF r(1) r(3) r(4) lo r(7) _ bd]
    have d: "dataset (run_steps cs ?e1) = dataset ?e1"
      by (rule run_steps_dataset[OF ne])
    have k: "current_step (run_steps cs ?e1) = int (length cs)"
      using inv[OF ok] by simp
    have "last_observation (run_steps cs ?e1) =
          Some (fst (observation_of_datapoint (run_steps cs ?e1)
            (length cs mod length ?ds) (?ds ! (length cs mod length ?ds))))"
    proof (cases cs rule: rev_cases)
      case Nil
      then show ?thesis using reset_served[OF rs ne] r(6) by simp
    next
      case (snoc cs' p)
      obtain c a where p: "p = (c, a)" by (cases p)
      let ?e = "run_steps cs' ?e1"
      have ok': "\<forall>(c, a) \<in> set cs'. collaborator_answers c a \<noteq> None"
        using ok snoc by simp
      note i = inv[OF ok']
      have ms': "max_steps ?e = None" using i ms by simp
      have nd: "\<not> is_done ?e" using ms' by (simp add: is_done_iff)
      obtain ob where ob: "last_observation ?e = Some ob" using i by auto
      obtain x v further where ans: "collaborator_answers c a = Some (x, v, further)"
        using ok snoc p by (cases "collaborator_answers c a") auto
      have att: "attempts (state ?e) \<noteq> - 1" using i by simp
      have su': "is_setup ?e" and ne': "\<not> episode_ended ?e" using i nd by simp_all
      have nb': "\<not> is_done (snd (step c a ?e))"
        using ms' by (simp add: is_done_iff step_frame)
      have de: "dataset ?e = dataset ?e1" by (rule run_steps_dataset[OF ne])
      have ds: "items (dataset ?e) \<noteq> []" using ne de by simp
      have "(int (length cs') + 1) mod int (length ?ds)
              = int (Suc (length cs') mod length ?ds)"
        by (simp add: zmod_int add.commute)
      then have ix: "nat ((int (length cs') + 1) mod int (length ?ds))
                  = Suc (length cs') mod length ?ds"
        by (simp only: nat_int)
      have cs': "current_step ?e = int (length cs')" using i by simp
      have len: "length cs = Suc (length cs')" unfolding snoc by simp
      have "last_observation (snd (step c a ?e)) =
           Some (fst (observation_of_datapoint (snd (step c a ?e))
             (Suc (length cs') mod length ?ds) (?ds ! (Suc (length cs') mod length ?ds))))"
        using step_served[OF nd su' ne' ob ans att nb' ds]
        unfolding de cs' ix .
      then show ?thesis
        unfolding len unfolding snoc p run_steps_snoc .
    qed
    with d k show ?thesis by (intro conjI)
  qed
  show ?thesis
  proof (rule conjI)
    show "items (dataset env) \<noteq> [] \<longrightarrow>
      nat (current_step env mod int (length (items (dataset env))))
        < length (items (dataset env))
      \<and> get_next_observation c env =
          observation_of_datapoint env
            (nat (current_step env mod int (length (items (dataset env)))))
            (items (dataset env)
               ! nat (current_step env mod int (length (items (dataset env)))))"
      by (rule A)
  next
    show "fst (reset c0 env0) = Inr ob0 \<and> items (dataset (snd (reset c0 env0))) \<noteq> []
        \<and> max_steps env0 = None
        \<and> (\<forall>(c, a) \<in> set cs. collaborator_answers c a \<noteq> None) \<longrightarrow>
      dataset (run_steps cs (snd (reset c0 env0))) = dataset (snd (reset c0 env0))
      \<and> current_step (run_steps cs (snd (reset c0 env0))) = int (length cs)
      \<and> last_observation (run_steps cs (snd (reset c0 env0))) =
          Some (fst (observation_of_datapoint (run_steps cs (snd (reset c0 env0)))
            (length cs mod length (items (dataset (snd (reset c0 env0)))))
            (items (dataset (snd (reset c0 env0)))
               ! (length cs mod length (items (dataset (snd (reset c0 env0))))))))"
      by (intro impI, elim conjE) (rule B)
  qed
qed


lemma ex_observation:
  "fst (observation_of_datapoint e i (ex_item q)) =
     (if q = [] then get_terminal_observation e else ex_obs q (current_step e) (py_str i))"
  by (simp add: observation_of_datapoint_def ex_item_def ex_obs_def Let_def dict_merge_def
        get_terminal_observation_def)

text \<open>The two-item source: the observations served for steps 1, 2 and 3.\<close>

theorem sampler_reads_cyclically_witness:
  "length (items (dataset (ex_env None))) = 2
   \<and> max_steps (ex_env None) = None
   \<and> last_observation (run_steps [] (ex_env None)) = Some (ex_obs ''a'' 0 ''0'')
   \<and> last_observation (run_steps [(ok_collab SUCCESS, ex_action)] (ex_env None))
       = Some (ex_obs ''b'' 1 ''1'')
   \<and> last_observation (run_steps [(ok_collab SUCCESS, ex_action),
                                   (ok_collab FAILURE, ex_action)] (ex_env None))
       = Some (ex_obs ''a'' 2 ''0'')
   \<and> get_next_observation (ok_collab SUCCESS) ((ex_env None)\<lparr>current_step := 5\<rparr>)
       = observation_of_datapoint ((ex_env None)\<lparr>current_step := 5\<rparr>) 1 (ex_item ''b'')"
proof -
  let ?env0 = "init_env ex_dataset None False"
  let ?c0 = "ok_collab SUCCESS"
  have rs: "fst (reset ?c0 ?env0) = Inr (ex_obs ''a'' 0 ''0'')" by (rule ex_reset_returns)
  have e1: "snd (reset ?c0 ?env0) = ex_env None" by (simp add: ex_env_def)
  have ds: "dataset (ex_env None) = ex_dataset" by (simp add: ex_env_eq)
  have it: "items ex_dataset = [ex_item ''a'', ex_item ''b'']" by (simp add: ex_dataset_def)
  have ne: "items (dataset (snd (reset ?c0 ?env0))) \<noteq> []" by (simp add: e1 ds it)
  have nb: "max_steps ?env0 = None" by (simp add: init_env_def)
  have ok: "\<forall>(c, a) \<in> set cs. collaborator_answers c a \<noteq> None"
    if "set cs \<subseteq> {(ok_collab FAILURE, ex_action), (ok_collab SUCCESS, ex_action)}" for cs
    using that by (auto simp: ex_answers)
  have run: "current_step (run_steps cs (ex_env None)) = int (length cs)
      \<and> last_observation (run_steps cs (ex_env None)) =
          Some (fst (observation_of_datapoint (run_steps cs (ex_env None))
            (length cs mod 2) ([ex_item ''a'', ex_item ''b''] ! (length cs mod 2))))"
    if "set cs \<subseteq> {(ok_collab FAILURE, ex_action), (ok_collab SUCCESS, ex_action)}" for cs
    using sampler_reads_cyclically[where ?c0.0 = ?c0 and ?env0.0 = ?env0 and cs = cs
        and ?ob0.0 = "ex_obs ''a'' 0 ''0''"] rs ne nb ok[OF that]
    unfolding e1 ds it by (simp add: numeral_2_eq_2)
  have 0: "last_observation (run_steps [] (ex_env None)) = Some (ex_obs ''a'' 0 ''0'')"
    using run[of "[]"] by (simp add: ex_observation py_str.simps)
  have 1: "last_observation (run_steps [(ok_collab SUCCESS, ex_action)] (ex_env None))
       = Some (ex_obs ''b'' 1 ''1'')"
    using run[of "[(ok_collab SUCCESS, ex_action)]"]
    by (simp add: ex_observation py_str.simps del: run_steps.simps)
  have 2: "last_observation (run_steps [(ok_collab SUCCESS, ex_action),
                                   (ok_collab FAILURE, ex_action)] (ex_env None))
       = Some (ex_obs ''a'' 2 ''0'')"
    using run[of "[(ok_collab SUCCESS, ex_action), (ok_collab FAILURE, ex_action)]"]
    by (simp add: ex_observation py_str.simps del: run_steps.simps)
  have 3: "get_next_observation (ok_collab SUCCESS) ((ex_env None)\<lparr>current_step := 5\<rparr>)
       = observation_of_datapoint ((ex_env None)\<lparr>current_step := 5\<rparr>) 1 (ex_item ''b'')"
    using sampler_reads_cyclically[where env = "(ex_env None)\<lparr>current_step := 5\<rparr>"
        and c = "ok_collab SUCCESS" and cs = "[]" and ?env0.0 = ?env0 and ?c0.0 = ?c0]
    by (simp add: ds it)
  have 4: "length (items (dataset (ex_env None))) = 2" by (simp add: ds it)
  have 5: "max_steps (ex_env None) = None" by (simp add: ex_env_eq)
  from 0 1 2 3 4 5 show ?thesis by (intro conjI)
qed

section \<open>Reset on an empty task source\<close>

text \<open>
  Claim C7.  When the task source is empty and does not support generation,
  \<^verbatim>\<open>reset\<close> returns the terminal observation, whose metadata has
  \<open>terminal = true\<close>, instead of raising.  \<^verbatim>\<open>reset\<close> first runs the lazy
  \<^verbatim>\<open>setup\<close>, a no-op returning at once on an environment that is set up; the
  source is the one this leaves, and \<^verbatim>\<open>setup\<close> is assumed not to raise.
\<close>

theorem reset_empty_dataset_terminal:
  assumes su: "fst (setup_env c env) = Inr ()"
    and em: "items (dataset (snd (setup_env c env))) = []"
    and ng: "\<not> generative (dataset (snd (setup_env c env)))"
  shows "fst (reset c env) =
           Inr \<lparr>question = ''Episode completed'', obs_context = [],
                metadata = Some [(''terminal'', PBool True), (''final_step'', PInt 0)]\<rparr>
       \<and> (\<exists>ob md. fst (reset c env) = Inr ob \<and> metadata ob = Some md
             \<and> map_of md ''terminal'' = Some (PBool True)
             \<and> last_observation (snd (reset c env)) = Some ob)"
proof -
  have p: "(if \<not> is_setup env then setup_env c env else (Inr (), env)) = setup_env c env"
    by (simp add: setup_env_def)
  obtain e0 where s: "setup_env c env = (Inr (), e0)"
    using su by (cases "setup_env c env") auto
  from em ng s have em': "items (dataset e0) = []" and ng': "\<not> generative (dataset e0)"
    by simp_all
  have r1: "reset c env =
     (case setup_env c env of
        (Inl e, env0) \<Rightarrow> (Inl e, env0)
      | (Inr u, env0) \<Rightarrow>
          (let env1 = env0\<lparr>current_step := 0, episode_ended := False, episode_history := [],
                            state := get_initial_state\<rparr>;
               (observation, env2) = get_next_observation c env1
           in (Inr observation, env2\<lparr>last_observation := Some observation\<rparr>)))"
    by (simp only: reset_def p)
  have "reset c env =
     (Inr \<lparr>question = ''Episode completed'', obs_context = [],
                metadata = Some [(''terminal'', PBool True), (''final_step'', PInt 0)]\<rparr>,
      e0\<lparr>current_step := 0, episode_ended := False, episode_history := [],
          state := get_initial_state,
          last_observation := Some \<lparr>question = ''Episode completed'', obs_context = [],
                metadata = Some [(''terminal'', PBool True), (''final_step'', PInt 0)]\<rparr>\<rparr>)"
    unfolding r1 s using em' ng'
    by (simp add: Let_def get_next_observation_def get_terminal_observation_def)
  then show ?thesis by simp
qed

text \<open>An environment that is not yet set up, over the empty source.\<close>

theorem reset_empty_dataset_terminal_witness:
  "fst (reset (ok_collab SUCCESS) (init_env empty_dataset None False)) =
           Inr \<lparr>question = ''Episode completed'', obs_context = [],
                metadata = Some [(''terminal'', PBool True), (''final_step'', PInt 0)]\<rparr>"
proof -
  have s: "setup_env (ok_collab SUCCESS) (init_env empty_dataset None False)
             = (Inr (), (init_env empty_dataset None False)\<lparr>is_setup := True\<rparr>)"
    by (simp add: setup_env_def init_env_def ok_collab_def)
  have "fst (setup_env (ok_collab SUCCESS) (init_env empty_dataset None False)) = Inr ()"
    "items (dataset (snd (setup_env (ok_collab SUCCESS)
        (init_env empty_dataset None False)))) = []"
    "\<not> generative (dataset (snd (setup_env (ok_collab SUCCESS)
        (init_env empty_dataset None False))))"
    unfolding s by (simp_all add: init_env_def empty_dataset_def)
  from reset_empty_dataset_terminal[OF this] show ?thesis by blast
qed

section \<open>The history and the step counter\<close>

lemma reset_counts:
  "(current_step (snd (reset c env)) = current_step env
      \<and> episode_history (snd (reset c env)) = episode_history env)
   \<or> (current_step (snd (reset c env)) = 0 \<and> episode_history (snd (reset c env)) = [])"
proof (cases "fst (reset c env)")
  case (Inl e)
  from reset_raises[OF this] show ?thesis by (simp add: setup_env_frame)
next
  case (Inr ob)
  from reset_returns(3,5)[OF this] show ?thesis by simp
qed

lemma reachable_history:
  "reachable env \<Longrightarrow> int (length (episode_history env)) = current_step env"
proof (induction rule: reachable.induct)
  case (reach_init ds ms teacher)
  show ?case by (simp add: init_env_def)
next
  case (reach_setup env c)
  then show ?case by (simp add: setup_env_frame)
next
  case (reach_teardown env c)
  then show ?case by (simp add: teardown_frame)
next
  case (reach_reset env c)
  with reset_counts[of c env] show ?case by auto
next
  case (reach_step env c a)
  with step_counts[of c a env] show ?case by auto
qed

text \<open>
  Claim C8.  In every reachable state the length of the episode history equals
  \<open>current_step\<close>.  A \<^verbatim>\<open>reset\<close> that returns sets them to the empty list and 0,
  and a \<^verbatim>\<open>step\<close> that passes the budget and ordering checks adds one to
  \<open>current_step\<close> and appends the pair of the current observation and the action,
  whatever the collaborators then do: the state at the exit of \<^verbatim>\<open>step\<close> is
  \<open>snd (step c a env)\<close> also when the extractor or the verifier raises.
\<close>

theorem history_length_invariant:
  "(reachable env \<longrightarrow> int (length (episode_history env)) = current_step env)
   \<and> (\<forall>ob. fst (reset c env) = Inr ob \<longrightarrow>
         current_step (snd (reset c env)) = 0 \<and> episode_history (snd (reset c env)) = [])
   \<and> (\<forall>ob. \<not> is_done env \<and> is_setup env \<and> \<not> episode_ended env
            \<and> last_observation env = Some ob \<longrightarrow>
         current_step (snd (step c a env)) = current_step env + 1
         \<and> episode_history (snd (step c a env)) = episode_history env @ [(ob, a)])"
  using reachable_history reset_returns(3,5) step_passes_checks by blast

text \<open>A step that exits by an error raised in the extractor.\<close>

theorem history_length_invariant_witness:
  "reachable (snd (step failing_collab ex_action (ex_env (Some 1))))
   \<and> fst (step failing_collab ex_action (ex_env (Some 1)))
        = Inl (CollaboratorError ''extractor failed'')
   \<and> int (length (episode_history (snd (step failing_collab ex_action (ex_env (Some 1))))))
        = current_step (snd (step failing_collab ex_action (ex_env (Some 1))))
   \<and> current_step (snd (step failing_collab ex_action (ex_env (Some 1)))) = 1
   \<and> episode_history (snd (step failing_collab ex_action (ex_env (Some 1))))
        = [(ex_obs ''a'' 0 ''0'', ex_action)]
   \<and> (\<exists>ob. fst (reset (ok_collab SUCCESS)
                 (snd (step failing_collab ex_action (ex_env (Some 1))))) = Inr ob)
   \<and> current_step (snd (reset (ok_collab SUCCESS)
                 (snd (step failing_collab ex_action (ex_env (Some 1)))))) = 0
   \<and> episode_history (snd (reset (ok_collab SUCCESS)
                 (snd (step failing_collab ex_action (ex_env (Some 1)))))) = []"
proof -
  let ?e = "snd (step failing_collab ex_action (ex_env (Some 1)))"
  have "reachable (ex_env (Some 1))"
    unfolding ex_env_def by (rule reach_reset[OF reach_init])
  then have r: "reachable ?e" by (rule reach_step)
  have f: "fst (step failing_collab ex_action (ex_env (Some 1)))
        = Inl (CollaboratorError ''extractor failed'')"
    by (simp add: step_def ex_env_eq failing_collab_def ok_collab_def)
  have h: "\<not> is_done (ex_env (Some 1)) \<and> is_setup (ex_env (Some 1))
      \<and> \<not> episode_ended (ex_env (Some 1))
      \<and> last_observation (ex_env (Some 1)) = Some (ex_obs ''a'' 0 ''0'')"
    using ex_env_not_done(1) by (simp add: ex_env_eq)
  have c0: "current_step (ex_env (Some 1)) = 0" "episode_history (ex_env (Some 1)) = []"
    by (simp_all add: ex_env_eq)
  from history_length_invariant[of ?e] r
  have 1: "int (length (episode_history ?e)) = current_step ?e" by blast
  from history_length_invariant[of "ex_env (Some 1)" failing_collab ex_action] h
  have 2: "current_step ?e = current_step (ex_env (Some 1)) + 1
         \<and> episode_history ?e = episode_history (ex_env (Some 1)) @ [(ex_obs ''a'' 0 ''0'', ex_action)]"
    by blast
  have "is_setup ?e"
    using step_frame(2)[of failing_collab ex_action "ex_env (Some 1)"] h by simp
  from reset_set_up_returns[OF this, of "ok_collab SUCCESS"] obtain ob
    where ob: "fst (reset (ok_collab SUCCESS) ?e) = Inr ob" by blast
  from history_length_invariant[of ?e "ok_collab SUCCESS"] ob
  have 3: "current_step (snd (reset (ok_collab SUCCESS) ?e)) = 0
         \<and> episode_history (snd (reset (ok_collab SUCCESS) ?e)) = []"
    by blast
  from 2 have 4: "current_step ?e = 1 \<and> episode_history ?e = [(ex_obs ''a'' 0 ''0'', ex_action)]"
    unfolding c0 by simp
  from r f 1 4 3 ob show ?thesis by blast
qed

end
